theory Spec2Isabelle
  imports Complex_Main
begin

section \<open>Job-listing dashboards: field derivation and filtering\<close>

text \<open>
  The two scripts \<^verbatim>\<open>GUI.py\<close> and \<^verbatim>\<open>TOOLSGUI.py\<close> load a table of job listings,
  derive a few columns from the text columns and filter the rows.  The definitions below
  follow the statements of the scripts.  Text is a list of 8-bit characters, read as the
  code points below 256 of a Python string.  A cell of a text column is a
  \<^typ>\<open>string option\<close>, \<^term>\<open>None\<close> being the table library's missing value.  A
  floating-point cell is \<^term>\<open>None\<close> for the not-a-number value, or a finite value or
  one of the two infinities.  A finite float is read as the real its numeral denotes: the
  rounding to double precision and the limits of its range are not modelled.
\<close>

subsection \<open>Text primitives of the Python runtime\<close>

text \<open>
  \<^verbatim>\<open>str.strip()\<close> and the pattern class \<^verbatim>\<open>\s\<close> use Python's \<^verbatim>\<open>str.isspace\<close>; the
  pattern class \<^verbatim>\<open>\w\<close> is \<^verbatim>\<open>str.isalnum\<close> or the underscore.  Both are given here
  for the code points below 256.
\<close>

definition is_space :: "char \<Rightarrow> bool" where
  "is_space c =
     (let n = (of_char c :: nat)
      in (9 \<le> n \<and> n \<le> 13) \<or> (28 \<le> n \<and> n \<le> 32) \<or> n = 133 \<or> n = 160)"

definition is_word :: "char \<Rightarrow> bool" where
  "is_word c =
     (let n = (of_char c :: nat)
      in (48 \<le> n \<and> n \<le> 57) \<or> (65 \<le> n \<and> n \<le> 90) \<or> n = 95 \<or> (97 \<le> n \<and> n \<le> 122)
         \<or> n = 170 \<or> n = 178 \<or> n = 179 \<or> n = 181 \<or> n = 185 \<or> n = 186
         \<or> (188 \<le> n \<and> n \<le> 190) \<or> (192 \<le> n \<and> n \<le> 214) \<or> (216 \<le> n \<and> n \<le> 246)
         \<or> (248 \<le> n \<and> n \<le> 255))"

definition ascii_lower :: "char \<Rightarrow> char" where
  \<comment> \<open>the case folding that decides whether a character matches an ASCII letter of a
      pattern compiled with \<^verbatim>\<open>re.IGNORECASE\<close>\<close>
  "ascii_lower c =
     (case map_of (zip ''ABCDEFGHIJKLMNOPQRSTUVWXYZ'' ''abcdefghijklmnopqrstuvwxyz'') c of
        None \<Rightarrow> c
      | Some l \<Rightarrow> l)"

definition strip :: "string \<Rightarrow> string" where
  \<comment> \<open>\<^verbatim>\<open>str.strip()\<close>\<close>
  "strip s = rev (dropWhile is_space (rev (dropWhile is_space s)))"

fun split_on :: "char \<Rightarrow> string \<Rightarrow> string list" where
  \<comment> \<open>\<^verbatim>\<open>str.split(sep)\<close> for a separator of one character\<close>
  "split_on sep [] = [[]]"
| "split_on sep (c # cs) =
     (if c = sep then [] # split_on sep cs
      else (case split_on sep cs of
              [] \<Rightarrow> [[c]]
            | p # ps \<Rightarrow> (c # p) # ps))"


definition middle_dot :: char where
  \<comment> \<open>the separator \<^verbatim>\<open>"\u00b7"\<close> of line 47, code point 183\<close>
  "middle_dot = CHR 0xB7"

subsection \<open>The extraction patterns\<close>

text \<open>
  \<^verbatim>\<open>Series.str.extract\<close> searches each cell with \<^verbatim>\<open>re.search\<close> and yields the text of
  the first group of the leftmost match, or the missing value when nothing matches or the
  cell is missing.

  City, pattern \<^verbatim>\<open>^([^,]+)\<close>: the longest run of characters other than a comma at the
  start of the text, which has to be non-empty.
\<close>

definition extract_city :: "string \<Rightarrow> string option" where
  "extract_city s =
     (let g = takeWhile (\<lambda>c. c \<noteq> CHR '','') s in if g = [] then None else Some g)"

text \<open>
  Country, pattern \<^verbatim>\<open>,\s*(\w+)$\<close>.  At a start position the match needs a comma, then
  takes all white space, then all word characters, and then has to stand at the end of the
  text or before a line feed that ends it.  Taking fewer characters in either run leaves
  a character of that run next, which neither the following item nor the end accepts, so
  backtracking adds no matches.  The search tries the start positions from the left.
\<close>

definition at_end :: "string \<Rightarrow> bool" where
  \<comment> \<open>\<^verbatim>\<open>$\<close> without \<^verbatim>\<open>re.MULTILINE\<close>\<close>
  "at_end s = (s = [] \<or> s = [CHR 0x0A])"

definition match_country :: "string \<Rightarrow> string option" where
  "match_country s =
     (case s of
        [] \<Rightarrow> None
      | c # cs \<Rightarrow>
          if c \<noteq> CHR '','' then None
          else (let r = dropWhile is_space cs;
                    g = takeWhile is_word r
                in if g \<noteq> [] \<and> at_end (dropWhile is_word r) then Some g else None))"

fun extract_country :: "string \<Rightarrow> string option" where
  "extract_country [] = None"
| "extract_country (c # cs) =
     (case match_country (c # cs) of
        Some g \<Rightarrow> Some g
      | None \<Rightarrow> extract_country cs)"

text \<open>
  Seniority, pattern \<^verbatim>\<open>\b(Senior|Junior|Intern|Lead|Manager)\b\<close> with
  \<^verbatim>\<open>re.IGNORECASE\<close>.  \<^verbatim>\<open>\b\<close> holds between two neighbours of which exactly one is
  a word character, the outside of the text counting as not a word character.  At a start
  position the alternatives are tried in the order written; the group is the matched text
  as the title spells it.
\<close>

definition seniority_keywords :: "string list" where
  "seniority_keywords = [''Senior'', ''Junior'', ''Intern'', ''Lead'', ''Manager'']"

definition word_boundary :: "char option \<Rightarrow> char option \<Rightarrow> bool" where
  "word_boundary prev nxt =
     ((case prev of None \<Rightarrow> False | Some c \<Rightarrow> is_word c)
        \<noteq> (case nxt of None \<Rightarrow> False | Some c \<Rightarrow> is_word c))"

definition match_keyword :: "string \<Rightarrow> string \<Rightarrow> string option" where
  \<comment> \<open>one alternative followed by the closing \<^verbatim>\<open>\b\<close>, at the head of \<open>s\<close>\<close>
  "match_keyword kw s =
     (let g = take (length kw) s; rest = drop (length kw) s
      in if length kw \<le> length s \<and> map ascii_lower g = map ascii_lower kw
            \<and> word_boundary (if g = [] then None else Some (last g))
                  (case rest of [] \<Rightarrow> None | d # _ \<Rightarrow> Some d)
         then Some g else None)"

fun match_alternatives :: "string list \<Rightarrow> string \<Rightarrow> string option" where
  "match_alternatives [] s = None"
| "match_alternatives (kw # kws) s =
     (case match_keyword kw s of
        Some g \<Rightarrow> Some g
      | None \<Rightarrow> match_alternatives kws s)"

fun search_seniority :: "char option \<Rightarrow> string \<Rightarrow> string option" where
  \<comment> \<open>the first argument is the character before the start position\<close>
  "search_seniority prev [] = None"
| "search_seniority prev (c # cs) =
     (if word_boundary prev (Some c)
      then (case match_alternatives seniority_keywords (c # cs) of
              Some g \<Rightarrow> Some g
            | None \<Rightarrow> search_seniority (Some c) cs)
      else search_seniority (Some c) cs)"

definition extract_seniority :: "string \<Rightarrow> string option" where
  "extract_seniority s = search_seniority None s"

subsection \<open>First dashboard: loading and the schema check\<close>

text \<open>
  The table read from the uploaded file, column by column: the header text of a column
  and its cells in row order.  Lines 26 and 27 of \<^verbatim>\<open>GUI.py\<close> drop the columns in which
  no cell has a value and strip the column names; line 28 removes repeated rows and leaves
  the columns as they are (it is modelled on the rows below, as \<open>drop_duplicates\<close>).
  Lines 33 to 37 stop the script with a message naming the required columns that are not
  among the columns.
\<close>

type_synonym cell = "string option"

type_synonym frame = "(string \<times> cell list) list"

datatype error = SchemaError "string set"

definition dropna_columns :: "frame \<Rightarrow> frame" where
  \<comment> \<open>\<^verbatim>\<open>df.dropna(axis=1, how='all')\<close>\<close>
  "dropna_columns df = filter (\<lambda>col. \<exists>c \<in> set (snd col). c \<noteq> None) df"

definition strip_columns :: "frame \<Rightarrow> frame" where
  \<comment> \<open>\<^verbatim>\<open>df.columns = df.columns.str.strip()\<close>\<close>
  "strip_columns df = map (\<lambda>col. (strip (fst col), snd col)) df"

definition required_columns :: "string set" where
  "required_columns =
     {''Salary (USD)'', ''Location'', ''Job Title'', ''Company Name'', ''Link''}"

definition columns :: "frame \<Rightarrow> string set" where
  "columns df = set (map fst df)"

definition check_required :: "frame \<Rightarrow> error + frame" where
  "check_required df =
     (if required_columns \<subseteq> columns df then Inr df
      else Inl (SchemaError (required_columns - columns df)))"

definition ingest :: "frame \<Rightarrow> error + frame" where
  "ingest df = check_required (strip_columns (dropna_columns df))"

subsection \<open>First dashboard: cleaning and derivation\<close>

text \<open>
  Past the schema check the five required columns exist.  A row of the table is then read
  as a record of their cells, with the cells of the columns the script does not touch in
  \<open>Other\<close>.  The uploaded table is one of two shapes: without a column \<^verbatim>\<open>Skills\<close>,
  or with it, and then every row carries its cell of that column.  Line 26 drops that
  column when no row has a value in it; \<open>clean\<close> below takes this into account.
\<close>

datatype amount = Finite real | PlusInfinity | MinusInfinity

record raw_row =
  Salary_text :: cell
  Location_text :: cell
  Job_Title_text :: cell
  Company_Name_text :: cell
  Link_text :: cell
  Other_text :: "cell list"

datatype table = NoSkills "raw_row list" | WithSkills "(raw_row \<times> cell) list"

record cleaned_row =
  Salary_USD :: "amount option"
  Location :: cell
  Job_Title :: cell
  Company_Name :: cell
  Link :: cell
  Other :: "cell list"
  Skills :: "string list option"
  Country :: cell
  Seniority :: cell
  City :: cell

fun drop_duplicates_seen :: "('a \<Rightarrow> 'k) \<Rightarrow> 'k list \<Rightarrow> 'a list \<Rightarrow> 'a list" where
  "drop_duplicates_seen key seen [] = []"
| "drop_duplicates_seen key seen (x # xs) =
     (if key x \<in> set seen then drop_duplicates_seen key seen xs
      else x # drop_duplicates_seen key (key x # seen) xs)"

definition drop_duplicates :: "('a \<Rightarrow> 'k) \<Rightarrow> 'a list \<Rightarrow> 'a list" where
  \<comment> \<open>\<^verbatim>\<open>drop_duplicates\<close> keeps the first row of every key in the order of the rows; the key
      is the whole row, or the subset of columns given.  Two missing cells are equal as
      keys.\<close>
  "drop_duplicates key xs = drop_duplicates_seen key [] xs"

definition astype_str :: "cell \<Rightarrow> string" where
  \<comment> \<open>\<^verbatim>\<open>astype(str)\<close> writes the missing value as the text \<^verbatim>\<open>nan\<close>\<close>
  "astype_str c = (case c of None \<Rightarrow> ''nan'' | Some s \<Rightarrow> s)"

definition remove_currency :: "string \<Rightarrow> string" where
  \<comment> \<open>\<^verbatim>\<open>str.replace("[$,]", "", regex=True)\<close>\<close>
  "remove_currency s = filter (\<lambda>c. \<not> (c = CHR ''$'' \<or> c = CHR '','')) s"

definition remove_dashes :: "string \<Rightarrow> string" where
  \<comment> \<open>\<^verbatim>\<open>str.replace("-", "")\<close>\<close>
  "remove_dashes s = filter (\<lambda>c. c \<noteq> CHR ''-'') s"

definition remove_trailing_dash :: "string \<Rightarrow> string" where
  \<comment> \<open>\<^verbatim>\<open>str.replace(r"\s*-\s*$", "", regex=True)\<close>: the one match, if any, is the last
      dash with the white space around it, provided only white space follows it\<close>
  "remove_trailing_dash s =
     (case dropWhile is_space (rev s) of
        [] \<Rightarrow> s
      | c # r \<Rightarrow> if c = CHR ''-'' then rev (dropWhile is_space r) else s)"

text \<open>
  \<^verbatim>\<open>pd.to_numeric(errors="coerce")\<close> reads each text with the library's \<^verbatim>\<open>to_double\<close>:
  ASCII white space, an optional sign, decimal digits with an optional point among them,
  at least one digit in all, an optional exponent part of \<^verbatim>\<open>e\<close> or \<^verbatim>\<open>E\<close>, an optional
  sign and at least one digit, and ASCII white space, up to the end of the text.  A text
  it rejects is an infinity when it is one of the six spellings of \<^verbatim>\<open>inf\<close> and
  \<^verbatim>\<open>infinity\<close> in any letter case, and not-a-number otherwise.  The value of a
  numeral is given exactly, and the texts are those without the character of code 0, at
  which the library's reading of a text ends.
\<close>

definition is_space_ascii :: "char \<Rightarrow> bool" where
  "is_space_ascii c = (let n = (of_char c :: nat) in (9 \<le> n \<and> n \<le> 13) \<or> n = 32)"

definition is_digit_ascii :: "char \<Rightarrow> bool" where
  "is_digit_ascii c = (let n = (of_char c :: nat) in 48 \<le> n \<and> n \<le> 57)"

definition digits_value :: "string \<Rightarrow> nat" where
  "digits_value ds = foldl (\<lambda>a d. 10 * a + (of_char d - 48)) 0 ds"

fun read_sign :: "string \<Rightarrow> bool \<times> string" where
  "read_sign [] = (False, [])"
| "read_sign (c # cs) =
     (if c = CHR ''-'' then (True, cs)
      else if c = CHR ''+'' then (False, cs)
      else (False, c # cs))"

definition to_double :: "string \<Rightarrow> real option" where
  "to_double s =
     (let signed = read_sign (dropWhile is_space_ascii s);
          s1 = snd signed;
          whole = takeWhile is_digit_ascii s1;
          s2 = dropWhile is_digit_ascii s1;
          point = (case s2 of [] \<Rightarrow> False | c # _ \<Rightarrow> c = CHR ''.'');
          frac = (if point then takeWhile is_digit_ascii (tl s2) else []);
          s3 = (if point then dropWhile is_digit_ascii (tl s2) else s2);
          sci = (case s3 of [] \<Rightarrow> False | c # _ \<Rightarrow> c = CHR ''e'' \<or> c = CHR ''E'');
          esigned = read_sign (tl s3);
          edigits = takeWhile is_digit_ascii (snd esigned);
          s4 = (if sci then dropWhile is_digit_ascii (snd esigned) else s3);
          mantissa = real (digits_value (whole @ frac)) / 10 ^ length frac;
          scaled = (if sci
                    then (if fst esigned then mantissa / 10 ^ digits_value edigits
                          else mantissa * 10 ^ digits_value edigits)
                    else mantissa)
      in if whole = [] \<and> frac = [] then None
         else if sci \<and> edigits = [] then None
         else if dropWhile is_space_ascii s4 \<noteq> [] then None
         else Some (if fst signed then - scaled else scaled))"

definition to_numeric :: "string \<Rightarrow> amount option" where
  "to_numeric s =
     (case to_double s of
        Some v \<Rightarrow> Some (Finite v)
      | None \<Rightarrow>
          (let l = map ascii_lower s
           in if l \<in> {''inf'', ''+inf'', ''infinity'', ''+infinity''} then Some PlusInfinity
              else if l \<in> {''-inf'', ''-infinity''} then Some MinusInfinity
              else None))"

text \<open>
  The cleaning stage is given for any parser \<open>parse\<close> in the place of \<open>to_numeric\<close>; the
  properties that do not depend on the salary hold for every parser.
\<close>

definition salary_cleaning :: "(string \<Rightarrow> amount option) \<Rightarrow> raw_row \<Rightarrow> cleaned_row" where
  \<comment> \<open>lines 41 and 42; the derived columns do not exist yet\<close>
  "salary_cleaning parse r =
     \<lparr> Salary_USD = parse (remove_currency (astype_str (Salary_text r))),
       Location = Location_text r,
       Job_Title = Job_Title_text r,
       Company_Name = Company_Name_text r,
       Link = Link_text r,
       Other = Other_text r,
       Skills = None,
       Country = None,
       Seniority = None,
       City = None \<rparr>"

definition skills_processing :: "cell \<Rightarrow> cleaned_row \<Rightarrow> cleaned_row" where
  \<comment> \<open>lines 46 and 47, with the renaming of line 50: the list replaces the raw column\<close>
  "skills_processing sk r =
     r \<lparr> Location := map_option (\<lambda>l. strip (remove_dashes l)) (Location r),
         Skills := map_option (split_on middle_dot) sk \<rparr>"

definition company_processing :: "cleaned_row \<Rightarrow> cleaned_row" where
  \<comment> \<open>line 49\<close>
  "company_processing r =
     r \<lparr> Company_Name := map_option (\<lambda>n. strip (remove_trailing_dash n)) (Company_Name r) \<rparr>"

definition location_processing :: "cleaned_row \<Rightarrow> cleaned_row" where
  \<comment> \<open>lines 53 to 55\<close>
  "location_processing r =
     r \<lparr> Country := Option.bind (Location r) extract_country,
         Seniority := Option.bind (Job_Title r) extract_seniority,
         City := Option.bind (Location r) extract_city \<rparr>"

definition clean_plain :: "(string \<Rightarrow> amount option) \<Rightarrow> raw_row list \<Rightarrow> cleaned_row list" where
  \<comment> \<open>the statements that run when line 45 finds no skills column\<close>
  "clean_plain parse rows =
     map location_processing
       (map (salary_cleaning parse) (drop_duplicates (\<lambda>r. r) rows))"

definition clean_skills ::
  "(string \<Rightarrow> amount option) \<Rightarrow> (raw_row \<times> cell) list \<Rightarrow> cleaned_row list" where
  \<comment> \<open>the statements that run when line 45 finds the skills column\<close>
  "clean_skills parse rows =
     map location_processing
       (map company_processing
         (drop_duplicates Link
           (map (\<lambda>(r, sk). skills_processing sk (salary_cleaning parse r))
             (drop_duplicates (\<lambda>r. r) rows))))"

fun clean :: "(string \<Rightarrow> amount option) \<Rightarrow> table \<Rightarrow> cleaned_row list" where
  \<comment> \<open>line 26 drops a skills column in which no cell has a value, so line 45 finds the
      column only when some row has skills\<close>
  "clean parse (NoSkills rows) = clean_plain parse rows"
| "clean parse (WithSkills rows) =
     (if \<exists>p \<in> set rows. snd p \<noteq> None then clean_skills parse rows
      else clean_plain parse (map fst rows))"

subsection \<open>First dashboard: the filter\<close>

text \<open>
  Lines 69 to 71 and 76 give the selections and the salary range; lines 79 to 87 filter.
  A selection is a list of texts, and an empty one is false as a condition.  \<^verbatim>\<open>isin\<close>
  is false on a missing cell, and so are both comparisons of the salary test.  The bounds
  of the range come from a slider over the integers; the filter is given here for any two
  real bounds.  \<open>series_min\<close> and \<open>series_max\<close> are the least and the greatest salary
  of line 75, missing ones skipped.
\<close>

record filter_spec =
  selected_country :: "string list"
  selected_city :: "string list"
  selected_seniority :: "string list"
  salary_range :: "real \<times> real"

definition isin :: "cell \<Rightarrow> string list \<Rightarrow> bool" where
  "isin c sel = (case c of None \<Rightarrow> False | Some v \<Rightarrow> v \<in> set sel)"

fun amount_le :: "amount \<Rightarrow> amount \<Rightarrow> bool" where
  \<comment> \<open>the order of the floats that are numbers\<close>
  "amount_le MinusInfinity b = True"
| "amount_le a PlusInfinity = True"
| "amount_le (Finite x) (Finite y) = (x \<le> y)"
| "amount_le a b = False"

definition in_salary_range :: "amount option \<Rightarrow> real \<times> real \<Rightarrow> bool" where
  "in_salary_range c rng =
     (case c of
        None \<Rightarrow> False
      | Some v \<Rightarrow> amount_le (Finite (fst rng)) v \<and> amount_le v (Finite (snd rng)))"

definition apply_filters :: "filter_spec \<Rightarrow> cleaned_row list \<Rightarrow> cleaned_row list" where
  "apply_filters f df_final =
     (let d1 = (if selected_country f \<noteq> []
                then filter (\<lambda>r. isin (Country r) (selected_country f)) df_final
                else df_final);
          d2 = (if selected_city f \<noteq> []
                then filter (\<lambda>r. isin (City r) (selected_city f)) d1
                else d1);
          d3 = (if selected_seniority f \<noteq> []
                then filter (\<lambda>r. isin (Seniority r) (selected_seniority f)) d2
                else d2)
      in filter (\<lambda>r. in_salary_range (Salary_USD r) (salary_range f)) d3)"




subsection \<open>Second dashboard: job level\<close>

text \<open>
  The argument of \<^verbatim>\<open>determine_job_level\<close> is a value of the experience column: Python's
  \<^verbatim>\<open>None\<close>, or a float, which is not-a-number for a missing cell.  Every comparison
  with not-a-number is false.
\<close>

datatype pyfloat = NaN | Num real

fun py_lt :: "pyfloat \<Rightarrow> real \<Rightarrow> bool" where
  "py_lt NaN y = False"
| "py_lt (Num x) y = (x < y)"

fun py_ge :: "pyfloat \<Rightarrow> real \<Rightarrow> bool" where
  "py_ge NaN y = False"
| "py_ge (Num x) y = (x \<ge> y)"

fun py_le_left :: "real \<Rightarrow> pyfloat \<Rightarrow> bool" where
  "py_le_left y NaN = False"
| "py_le_left y (Num x) = (y \<le> x)"

definition determine_job_level :: "pyfloat option \<Rightarrow> string option" where
  "determine_job_level experience =
     (case experience of
        None \<Rightarrow> None
      | Some e \<Rightarrow>
          if py_lt e 2 then Some ''Junior''
          else if py_le_left 2 e \<and> py_lt e 5 then Some ''Mid-Level''
          else if py_ge e 5 then Some ''Senior''
          else None)"

subsection \<open>The pipeline row by row\<close>

text \<open>
  The rows a table holds, and what the statements of the cleaning stage make of one row;
  the properties below relate \<open>clean\<close> to these.
\<close>

fun raw_rows :: "table \<Rightarrow> raw_row list" where
  "raw_rows (NoSkills rows) = rows"
| "raw_rows (WithSkills rows) = map fst rows"

definition derive_plain :: "(string \<Rightarrow> amount option) \<Rightarrow> raw_row \<Rightarrow> cleaned_row" where
  "derive_plain parse r = location_processing (salary_cleaning parse r)"

definition derive_skills :: "(string \<Rightarrow> amount option) \<Rightarrow> raw_row \<times> cell \<Rightarrow> cleaned_row" where
  "derive_skills parse p =
     location_processing (company_processing (skills_processing (snd p) (salary_cleaning parse (fst p))))"

subsection \<open>Standalone occurrences of a keyword\<close>

text \<open>
  The text \<open>g\<close> between \<open>pre\<close> and \<open>post\<close> is a standalone occurrence of a keyword:
  it is a keyword up to letter case, and \<^verbatim>\<open>\b\<close> holds on both of its sides, \<open>prev\<close>
  being the character before the whole text.
\<close>

definition occurrence :: "char option \<Rightarrow> string \<Rightarrow> string \<Rightarrow> string \<Rightarrow> bool" where
  "occurrence prev pre g post =
     (map ascii_lower g \<in> set (map (map ascii_lower) seniority_keywords)
      \<and> word_boundary (if pre = [] then prev else Some (last pre))
            (case g of [] \<Rightarrow> None | h # _ \<Rightarrow> Some h)
      \<and> word_boundary (if g = [] then None else Some (last g))
            (case post of [] \<Rightarrow> None | d # _ \<Rightarrow> Some d))"

subsection \<open>The country as the specification words it\<close>

text \<open>
  For comparison with \<open>extract_country\<close>: the last of the comma-separated pieces of the
  location, trimmed as in the specification's example, and nothing without a comma.
\<close>

definition spec_country :: "string \<Rightarrow> string option" where
  "spec_country loc =
     (if CHR '','' \<in> set loc then Some (strip (last (split_on (CHR '','') loc))) else None)"

subsection \<open>Example data\<close>

definition upload :: "cell list \<Rightarrow> frame" where
  "upload links =
     [('' Salary (USD)'', [Some ''$1,200'', Some ''N/A'']),
      (''Location '', [Some ''Cairo, Egypt'', Some ''Remote'']),
      (''Job Title'', [Some ''Senior Analyst'', None]),
      (''Company Name'', [Some ''Acme -'', Some ''Initech'']),
      (''Link'', links),
      (''Notes'', [None, None])]"

definition posting :: "string \<Rightarrow> string \<Rightarrow> string \<Rightarrow> string \<Rightarrow> raw_row" where
  "posting sal loc title url =
     \<lparr> Salary_text = Some sal, Location_text = Some loc, Job_Title_text = Some title,
       Company_Name_text = Some ''Acme -'', Link_text = Some url, Other_text = [] \<rparr>"


definition listing :: "real option \<Rightarrow> string \<Rightarrow> cleaned_row" where
  \<comment> \<open>a cleaned row with the given finite or missing salary and link\<close>
  "listing sal url =
     \<lparr> Salary_USD = map_option Finite sal, Location = Some ''Cairo, Egypt'',
       Job_Title = Some ''Senior Analyst'', Company_Name = Some ''Acme'', Link = Some url,
       Other = [], Skills = None, Country = Some ''Egypt'', Seniority = Some ''Senior'',
       City = Some ''Cairo'' \<rparr>"

section \<open>Properties\<close>

subsection \<open>The filter\<close>













text \<open>
  C9.  A range whose lower bound is above its upper bound gives the empty result,
  whatever the rows and the selections; the filter is a total function and has no error
  to raise.
\<close>

theorem filter_inverted_range_empty:
  "fst (salary_range f) > snd (salary_range f) \<Longrightarrow> apply_filters f rows = []"
proof -
  assume a: "fst (salary_range f) > snd (salary_range f)"
  have "\<not> in_salary_range c (salary_range f)" for c
  proof (cases c)
    case None then show ?thesis by (simp add: in_salary_range_def)
  next
    case (Some v)
    with a show ?thesis by (cases v) (auto simp: in_salary_range_def)
  qed
  then show ?thesis by (simp add: apply_filters_def Let_def)
qed

theorem filter_inverted_range_empty_witness:
  "(200::real) > 100
   \<and> apply_filters \<lparr> selected_country = [''Egypt''], selected_city = [],
          selected_seniority = [], salary_range = (200, 100) \<rparr>
        [listing (Some 100) ''a'', listing (Some 150) ''b'', listing None ''c''] = []"
  using filter_inverted_range_empty[of "\<lparr> selected_country = [''Egypt''], selected_city = [],
          selected_seniority = [], salary_range = (200, 100) \<rparr>"
        "[listing (Some 100) ''a'', listing (Some 150) ''b'', listing None ''c'']"]
  by simp

subsection \<open>The cleaning stage, row by row\<close>

lemma dds_subset: "set (drop_duplicates_seen key seen xs) \<subseteq> set xs"
  by (induction xs arbitrary: seen) auto

lemma dds_map:
  "drop_duplicates_seen key seen (map f xs) = map f (drop_duplicates_seen (\<lambda>x. key (f x)) seen xs)"
  by (induction xs arbitrary: seen) auto

lemma dds_absorb:
  "key ` set seen' \<subseteq> set seen \<Longrightarrow>
   drop_duplicates_seen key seen (drop_duplicates_seen (\<lambda>x. x) seen' xs) = drop_duplicates_seen key seen xs"
proof (induction xs arbitrary: seen seen')
  case Nil show ?case by simp
next
  case (Cons x xs)
  show ?case
  proof (cases "x \<in> set seen'")
    case True
    with Cons.prems have "key x \<in> set seen" by auto
    with True Cons show ?thesis by simp
  next
    case False
    show ?thesis
    proof (cases "key x \<in> set seen")
      case True
      from Cons.prems True have "key ` set (x # seen') \<subseteq> set seen" by auto
      from Cons.IH[OF this] True False show ?thesis by simp
    next
      case k: False
      from Cons.prems have "key ` set (x # seen') \<subseteq> set (key x # seen)" by auto
      from Cons.IH[OF this] k False show ?thesis by simp
    qed
  qed
qed

lemma dds_distinct:
  "distinct (map key (drop_duplicates_seen key seen xs))
   \<and> set (map key (drop_duplicates_seen key seen xs)) \<inter> set seen = {}"
proof (induction xs arbitrary: seen)
  case Nil show ?case by simp
next
  case (Cons x xs)
  from Cons[of seen] Cons[of "key x # seen"] show ?case by auto
qed

lemma dds_keys:
  "set (map key (drop_duplicates_seen key seen xs)) = set (map key xs) - set seen"
proof (induction xs arbitrary: seen)
  case Nil show ?case by simp
next
  case (Cons x xs)
  from Cons[of seen] Cons[of "key x # seen"] show ?case by auto
qed

lemma Link_derive: "Link (skills_processing sk (salary_cleaning parse r)) = Link_text r"
  by (simp add: skills_processing_def salary_cleaning_def)

lemma clean_plain_eq:
  "clean_plain parse rows = map (derive_plain parse) (drop_duplicates (\<lambda>r. r) rows)"
  by (simp add: clean_plain_def derive_plain_def)

lemma clean_NoSkills:
  "clean parse (NoSkills rows) = map (derive_plain parse) (drop_duplicates (\<lambda>r. r) rows)"
  by (simp add: clean_plain_eq)

lemma clean_skills_eq:
  "clean_skills parse rows
     = map (derive_skills parse) (drop_duplicates (\<lambda>p. Link_text (fst p)) rows)"
proof -
  have "drop_duplicates Link (map (\<lambda>(r, sk). skills_processing sk (salary_cleaning parse r))
             (drop_duplicates (\<lambda>r. r) rows))
        = map (\<lambda>(r, sk). skills_processing sk (salary_cleaning parse r))
            (drop_duplicates (\<lambda>p. Link_text (fst p)) rows)"
    unfolding drop_duplicates_def
    by (simp add: dds_map dds_absorb case_prod_beta Link_derive)
  then show ?thesis by (simp add: clean_skills_def derive_skills_def case_prod_beta)
qed

lemma clean_WithSkills:
  "\<exists>p \<in> set rows. snd p \<noteq> None \<Longrightarrow>
   clean parse (WithSkills rows)
     = map (derive_skills parse) (drop_duplicates (\<lambda>p. Link_text (fst p)) rows)"
  by (simp add: clean_skills_eq)

lemma clean_WithSkills_empty:
  "\<forall>p \<in> set rows. snd p = None \<Longrightarrow>
   clean parse (WithSkills rows)
     = map (derive_plain parse) (drop_duplicates (\<lambda>r. r) (map fst rows))"
  by (simp add: clean_plain_eq)

lemma Link_derive_skills: "Link (derive_skills parse p) = Link_text (fst p)"
  by (simp add: derive_skills_def location_processing_def company_processing_def Link_derive)

lemma dds_first:
  "x \<in> set (drop_duplicates_seen key seen xs) \<Longrightarrow> find (\<lambda>y. key y = key x) xs = Some x"
proof (induction xs arbitrary: seen)
  case Nil then show ?case by simp
next
  case (Cons y ys)
  from Cons.prems dds_keys[of key seen "y # ys"] have ns: "key x \<notin> set seen" by force
  show ?case
  proof (cases "key y \<in> set seen")
    case True
    with Cons.prems have "x \<in> set (drop_duplicates_seen key seen ys)" by simp
    from Cons.IH[OF this] True ns show ?thesis by auto
  next
    case False
    show ?thesis
    proof (cases "x = y")
      case True then show ?thesis by simp
    next
      case xy: False
      with Cons.prems False have m: "x \<in> set (drop_duplicates_seen key (key y # seen) ys)" by simp
      with dds_keys[of key "key y # seen" ys] have "key x \<noteq> key y" by force
      with Cons.IH[OF m] show ?thesis by auto
    qed
  qed
qed

lemma clean_NoSkills_mem:
  "row \<in> set (clean parse (NoSkills rows)) \<Longrightarrow> \<exists>r\<in>set rows. row = derive_plain parse r"
  using dds_subset[of "\<lambda>r. r" "[]" rows]
  by (auto simp: clean_NoSkills drop_duplicates_def simp del: clean.simps)

lemma clean_WithSkills_mem:
  "row \<in> set (clean parse (WithSkills rows)) \<Longrightarrow>
   (\<exists>p\<in>set rows. row = derive_skills parse p)
   \<or> (\<exists>p\<in>set rows. snd p = None \<and> row = derive_plain parse (fst p))"
proof (cases "\<exists>p \<in> set rows. snd p \<noteq> None")
  case True
  assume "row \<in> set (clean parse (WithSkills rows))"
  with clean_WithSkills[OF True, of parse]
  have "row \<in> derive_skills parse ` set (drop_duplicates_seen (\<lambda>p. Link_text (fst p)) [] rows)"
    by (simp add: drop_duplicates_def del: clean.simps)
  with dds_subset[of "\<lambda>p. Link_text (fst p)" "[]" rows] show ?thesis by blast
next
  case False
  then have n: "\<forall>p \<in> set rows. snd p = None" by blast
  assume "row \<in> set (clean parse (WithSkills rows))"
  with clean_WithSkills_empty[OF n, of parse]
  have "row \<in> derive_plain parse ` set (drop_duplicates_seen (\<lambda>r. r) [] (map fst rows))"
    by (simp add: drop_duplicates_def del: clean.simps)
  with dds_subset[of "\<lambda>r. r" "[]" "map fst rows"] n show ?thesis by auto
qed

subsection \<open>Salary\<close>



lemma identity_derive_plain:
  "Link (derive_plain parse r) = Link_text r \<and> Job_Title (derive_plain parse r) = Job_Title_text r
   \<and> Other (derive_plain parse r) = Other_text r"
  by (simp add: derive_plain_def location_processing_def salary_cleaning_def)

lemma identity_derive_skills:
  "Link (derive_skills parse p) = Link_text (fst p)
   \<and> Job_Title (derive_skills parse p) = Job_Title_text (fst p)
   \<and> Other (derive_skills parse p) = Other_text (fst p)"
  by (simp add: derive_skills_def location_processing_def company_processing_def
        skills_processing_def salary_cleaning_def)








subsection \<open>Skills\<close>










subsection \<open>Deduplication on the link\<close>

lemma dds_same_id:
  "distinct (drop_duplicates (\<lambda>r. r) xs) \<and> set (drop_duplicates (\<lambda>r. r) xs) = set xs"
  unfolding drop_duplicates_def
  using dds_distinct[of "\<lambda>r. r" "[]" xs] dds_keys[of "\<lambda>r. r" "[]" xs] by simp

text \<open>
  C3, amended: when the table has a skills column with a value in some row, the cleaned
  rows are the rows derived from the first raw row of every link, in the order of the raw
  rows, so no two cleaned rows share a link, two missing links counting as the same link.
  When the table has no skills column, or one without any value, only the repetitions of
  a whole row are removed.
\<close>

theorem link_dedup_with_skills:
  "((\<exists>p \<in> set rows. snd p \<noteq> None) \<longrightarrow>
       clean parse (WithSkills rows)
         = map (derive_skills parse) (drop_duplicates (\<lambda>p. Link_text (fst p)) rows)
       \<and> distinct (map Link (clean parse (WithSkills rows)))
       \<and> set (map Link (clean parse (WithSkills rows)))
           = set (map (\<lambda>p. Link_text (fst p)) rows)
       \<and> (\<forall>row \<in> set (clean parse (WithSkills rows)).
            \<exists>p. find (\<lambda>q. Link_text (fst q) = Link row) rows = Some p
                \<and> row = derive_skills parse p))
   \<and> ((\<forall>p \<in> set rows. snd p = None) \<longrightarrow>
       clean parse (WithSkills rows) = clean parse (NoSkills (map fst rows)))
   \<and> clean parse (NoSkills rows') = map (derive_plain parse) (drop_duplicates (\<lambda>r. r) rows')
   \<and> distinct (drop_duplicates (\<lambda>r. r) rows')
   \<and> set (drop_duplicates (\<lambda>r. r) rows') = set rows'
   \<and> Link (derive_skills parse q) = Link_text (fst q)
   \<and> Job_Title (derive_skills parse q) = Job_Title_text (fst q)
   \<and> Link (derive_plain parse r) = Link_text r
   \<and> Job_Title (derive_plain parse r) = Job_Title_text r"
proof -
  let ?k = "\<lambda>p. Link_text (fst p)"
  have w: "(\<exists>p \<in> set rows. snd p \<noteq> None) \<longrightarrow>
       clean parse (WithSkills rows) = map (derive_skills parse) (drop_duplicates ?k rows)
       \<and> distinct (map Link (clean parse (WithSkills rows)))
       \<and> set (map Link (clean parse (WithSkills rows))) = set (map ?k rows)
       \<and> (\<forall>row \<in> set (clean parse (WithSkills rows)).
            \<exists>p. find (\<lambda>q. Link_text (fst q) = Link row) rows = Some p
                \<and> row = derive_skills parse p)"
  proof
    assume h: "\<exists>p \<in> set rows. snd p \<noteq> None"
    note c = clean_WithSkills[OF h, of parse]
    have d: "distinct (map ?k (drop_duplicates ?k rows))"
      unfolding drop_duplicates_def using dds_distinct[of ?k "[]" rows] by simp
    have k: "set (map ?k (drop_duplicates ?k rows)) = set (map ?k rows)"
      unfolding drop_duplicates_def using dds_keys[of ?k "[]" rows] by simp
    have m: "map Link (clean parse (WithSkills rows)) = map ?k (drop_duplicates ?k rows)"
      by (simp add: c Link_derive_skills comp_def del: clean.simps)
    have f: "\<forall>row \<in> set (clean parse (WithSkills rows)).
          \<exists>p. find (\<lambda>q. Link_text (fst q) = Link row) rows = Some p
              \<and> row = derive_skills parse p"
    proof
      fix row assume "row \<in> set (clean parse (WithSkills rows))"
      then obtain p where p: "p \<in> set (drop_duplicates_seen ?k [] rows)"
        and r: "row = derive_skills parse p"
        by (auto simp: c drop_duplicates_def simp del: clean.simps)
      from dds_first[OF p] have "find (\<lambda>q. ?k q = ?k p) rows = Some p" .
      with r show "\<exists>p. find (\<lambda>q. Link_text (fst q) = Link row) rows = Some p
                      \<and> row = derive_skills parse p"
        by (auto simp: Link_derive_skills)
    qed
    have d': "distinct (map Link (clean parse (WithSkills rows)))" by (simp only: m d)
    have k': "set (map Link (clean parse (WithSkills rows))) = set (map ?k rows)"
      by (simp only: m k)
    from c d' k' f show "clean parse (WithSkills rows)
         = map (derive_skills parse) (drop_duplicates ?k rows)
       \<and> distinct (map Link (clean parse (WithSkills rows)))
       \<and> set (map Link (clean parse (WithSkills rows))) = set (map ?k rows)
       \<and> (\<forall>row \<in> set (clean parse (WithSkills rows)).
            \<exists>p. find (\<lambda>q. Link_text (fst q) = Link row) rows = Some p
                \<and> row = derive_skills parse p)" by blast
  qed
  have e: "(\<forall>p \<in> set rows. snd p = None) \<longrightarrow>
       clean parse (WithSkills rows) = clean parse (NoSkills (map fst rows))"
    by simp
  from w e clean_NoSkills[of parse rows'] dds_same_id[of rows']
    identity_derive_skills[of parse q] identity_derive_plain[of parse r]
  show ?thesis by blast
qed

text \<open>
  C3, as stated: for every input, only the first of the rows that share a link is
  retained.  It fails on a table without a skills column: two rows with the same link and
  different titles are both retained.
\<close>

theorem link_dedup_counterexample:
  "map Link (clean to_numeric (NoSkills
       [posting ''900'' ''Cairo, Egypt'' ''Senior Analyst'' ''u1'',
        posting ''900'' ''Cairo, Egypt'' ''Analyst'' ''u1''])) = [Some ''u1'', Some ''u1'']
   \<and> map Job_Title (clean to_numeric (NoSkills
       [posting ''900'' ''Cairo, Egypt'' ''Senior Analyst'' ''u1'',
        posting ''900'' ''Cairo, Egypt'' ''Analyst'' ''u1'']))
      = [Some ''Senior Analyst'', Some ''Analyst'']"
  by (simp add: clean_plain_def drop_duplicates_def posting_def salary_cleaning_def
        location_processing_def)

theorem link_dedup_with_skills_witness:
  "map Link (clean to_numeric (WithSkills
       [(posting ''900'' ''Cairo, Egypt'' ''Senior Analyst'' ''u1'', Some ''SQL''),
        (posting ''950'' ''Giza, Egypt'' ''Analyst'' ''u2'', None),
        (posting ''900'' ''Cairo, Egypt'' ''Analyst'' ''u1'', Some ''Excel'')]))
     = [Some ''u1'', Some ''u2'']
   \<and> map Job_Title (clean to_numeric (WithSkills
       [(posting ''900'' ''Cairo, Egypt'' ''Senior Analyst'' ''u1'', Some ''SQL''),
        (posting ''950'' ''Giza, Egypt'' ''Analyst'' ''u2'', None),
        (posting ''900'' ''Cairo, Egypt'' ''Analyst'' ''u1'', Some ''Excel'')]))
     = [Some ''Senior Analyst'', Some ''Analyst'']
   \<and> map Job_Title (clean to_numeric (WithSkills
       [(posting ''900'' ''Cairo, Egypt'' ''Senior Analyst'' ''u1'', None),
        (posting ''900'' ''Cairo, Egypt'' ''Analyst'' ''u1'', None)]))
     = [Some ''Senior Analyst'', Some ''Analyst'']
   \<and> length (clean to_numeric (NoSkills
       [posting ''900'' ''Cairo, Egypt'' ''Senior Analyst'' ''u1'',
        posting ''900'' ''Cairo, Egypt'' ''Senior Analyst'' ''u1'',
        posting ''900'' ''Cairo, Egypt'' ''Analyst'' ''u1''])) = 2"
proof -
  let ?rows = "[(posting ''900'' ''Cairo, Egypt'' ''Senior Analyst'' ''u1'', Some ''SQL''),
        (posting ''950'' ''Giza, Egypt'' ''Analyst'' ''u2'', None),
        (posting ''900'' ''Cairo, Egypt'' ''Analyst'' ''u1'', Some ''Excel'')]"
  let ?none = "[(posting ''900'' ''Cairo, Egypt'' ''Senior Analyst'' ''u1'', None :: cell),
        (posting ''900'' ''Cairo, Egypt'' ''Analyst'' ''u1'', None)]"
  let ?rows' = "[posting ''900'' ''Cairo, Egypt'' ''Senior Analyst'' ''u1'',
        posting ''900'' ''Cairo, Egypt'' ''Senior Analyst'' ''u1'',
        posting ''900'' ''Cairo, Egypt'' ''Analyst'' ''u1'']"
  have h: "\<exists>p \<in> set ?rows. snd p \<noteq> None" by simp
  have hn: "\<forall>p \<in> set ?none. snd p = None" by simp
  have dk: "drop_duplicates (\<lambda>p. Link_text (fst p)) ?rows
           = [(posting ''900'' ''Cairo, Egypt'' ''Senior Analyst'' ''u1'', Some ''SQL''),
              (posting ''950'' ''Giza, Egypt'' ''Analyst'' ''u2'', None)]"
    by (simp add: drop_duplicates_def posting_def)
  have di: "drop_duplicates (\<lambda>r. r) ?rows'
           = [posting ''900'' ''Cairo, Egypt'' ''Senior Analyst'' ''u1'',
              posting ''900'' ''Cairo, Egypt'' ''Analyst'' ''u1'']"
    by (simp add: drop_duplicates_def posting_def)
  have dn: "drop_duplicates (\<lambda>r. r) (map fst ?none)
           = [posting ''900'' ''Cairo, Egypt'' ''Senior Analyst'' ''u1'',
              posting ''900'' ''Cairo, Egypt'' ''Analyst'' ''u1'']"
    by (simp add: drop_duplicates_def posting_def)
  note T = link_dedup_with_skills[of ?rows to_numeric ?rows']
  note N = link_dedup_with_skills[of ?none to_numeric "map fst ?none"]
  from T h have a: "clean to_numeric (WithSkills ?rows)
            = map (derive_skills to_numeric) (drop_duplicates (\<lambda>p. Link_text (fst p)) ?rows)"
    by blast
  from T have b: "clean to_numeric (NoSkills ?rows')
            = map (derive_plain to_numeric) (drop_duplicates (\<lambda>r. r) ?rows')" by blast
  from N hn have c: "clean to_numeric (WithSkills ?none)
            = map (derive_plain to_numeric) (drop_duplicates (\<lambda>r. r) (map fst ?none))"
    by metis
  have 1: "map Link (clean to_numeric (WithSkills ?rows)) = [Some ''u1'', Some ''u2'']"
    unfolding a dk by (simp add: identity_derive_skills posting_def)
  have 2: "map Job_Title (clean to_numeric (WithSkills ?rows))
            = [Some ''Senior Analyst'', Some ''Analyst'']"
    unfolding a dk by (simp add: identity_derive_skills posting_def)
  have 3: "map Job_Title (clean to_numeric (WithSkills ?none))
            = [Some ''Senior Analyst'', Some ''Analyst'']"
    unfolding c dn by (simp add: identity_derive_plain posting_def)
  have 4: "length (clean to_numeric (NoSkills ?rows')) = 2"
    unfolding b di by simp
  from 1 2 3 4 show ?thesis by blast
qed

subsection \<open>Location, city and country\<close>

lemma set_strip: "set (strip s) \<subseteq> set s"
proof -
  have "set (strip s) = set (dropWhile is_space (rev (dropWhile is_space s)))"
    by (simp add: strip_def)
  also have "\<dots> \<subseteq> set (rev (dropWhile is_space s))" by (rule set_dropWhileD[THEN subsetI]) 
  also have "\<dots> \<subseteq> set s" using set_dropWhileD[of _ is_space s] by auto
  finally show ?thesis .
qed

lemma no_dash_remove_dashes: "CHR ''-'' \<notin> set (strip (remove_dashes s))"
  using set_strip[of "remove_dashes s"] by (auto simp: remove_dashes_def)

lemma set_extract_city: "extract_city s = Some c \<Longrightarrow> set c \<subseteq> set s"
  using set_takeWhileD[of _ "\<lambda>c. c \<noteq> CHR '',''" s]
  by (auto simp: extract_city_def Let_def split: if_splits)

lemma match_country_Some:
  "match_country s = Some g \<Longrightarrow>
   \<exists>cs. s = CHR '','' # cs \<and> g = takeWhile is_word (dropWhile is_space cs) \<and> g \<noteq> []
        \<and> at_end (dropWhile is_word (dropWhile is_space cs))"
  by (auto simp: match_country_def Let_def split: list.splits if_splits)

lemma extract_country_words: "extract_country s = Some g \<Longrightarrow> g \<noteq> [] \<and> list_all is_word g"
proof (induction s)
  case Nil then show ?case by simp
next
  case (Cons c cs)
  show ?case
  proof (cases "match_country (c # cs)")
    case None with Cons show ?thesis by simp
  next
    case (Some h)
    with Cons.prems have "h = g" by simp
    with Some match_country_Some[of "c # cs" g] show ?thesis
      by (auto simp: list_all_iff dest: set_takeWhileD)
  qed
qed

lemma dash_not_word: "\<not> is_word (CHR ''-'')"
  by (simp add: is_word_def)

lemma no_dash_country: "extract_country s = Some g \<Longrightarrow> CHR ''-'' \<notin> set g"
  using extract_country_words[of s g] dash_not_word by (auto simp: list_all_iff)

lemma Location_derive_skills:
  "Location (derive_skills parse p) = map_option (\<lambda>l. strip (remove_dashes l)) (Location_text (fst p))"
  by (simp add: derive_skills_def location_processing_def company_processing_def
        skills_processing_def salary_cleaning_def)

lemma Location_derive_plain: "Location (derive_plain parse r) = Location_text r"
  by (simp add: derive_plain_def location_processing_def salary_cleaning_def)

lemma City_Country_derive_skills:
  "City (derive_skills parse p) = Option.bind (Location (derive_skills parse p)) extract_city
   \<and> Country (derive_skills parse p) = Option.bind (Location (derive_skills parse p)) extract_country"
  by (simp add: derive_skills_def location_processing_def company_processing_def
        skills_processing_def salary_cleaning_def)

lemma City_Country_derive_plain:
  "City (derive_plain parse r) = Option.bind (Location (derive_plain parse r)) extract_city
   \<and> Country (derive_plain parse r) = Option.bind (Location (derive_plain parse r)) extract_country"
  by (simp add: derive_plain_def location_processing_def salary_cleaning_def)

lemma derive_skills_no_dash:
  "(\<forall>l. Location (derive_skills parse p) = Some l \<longrightarrow> CHR ''-'' \<notin> set l)
   \<and> (\<forall>c. City (derive_skills parse p) = Some c \<longrightarrow> CHR ''-'' \<notin> set c)
   \<and> (\<forall>c. Country (derive_skills parse p) = Some c \<longrightarrow> CHR ''-'' \<notin> set c)"
proof -
  have l: "\<And>l. Location (derive_skills parse p) = Some l \<Longrightarrow> CHR ''-'' \<notin> set l"
    using no_dash_remove_dashes by (auto simp: Location_derive_skills)
  have c: "\<And>c. City (derive_skills parse p) = Some c \<Longrightarrow> CHR ''-'' \<notin> set c"
  proof -
    fix c assume "City (derive_skills parse p) = Some c"
    with City_Country_derive_skills[of parse p]
    obtain l where a: "Location (derive_skills parse p) = Some l" and b: "extract_city l = Some c"
      by (cases "Location (derive_skills parse p)") auto
    from l[OF a] set_extract_city[OF b] show "CHR ''-'' \<notin> set c" by auto
  qed
  have k: "\<And>c. Country (derive_skills parse p) = Some c \<Longrightarrow> CHR ''-'' \<notin> set c"
  proof -
    fix c assume "Country (derive_skills parse p) = Some c"
    with City_Country_derive_skills[of parse p]
    obtain l where "extract_country l = Some c"
      by (cases "Location (derive_skills parse p)") auto
    then show "CHR ''-'' \<notin> set c" by (rule no_dash_country)
  qed
  from l c k show ?thesis by blast
qed

lemma rev_split_while:
  "xs = rev (dropWhile P (rev xs)) @ rev (takeWhile P (rev xs))"
  by (metis rev_append rev_rev_ident takeWhile_dropWhile_id)

lemma strip_decompose:
  "\<exists>x y. s = x @ strip s @ y \<and> list_all is_space x \<and> list_all is_space y"
proof -
  let ?t = "dropWhile is_space s"
  let ?x = "takeWhile is_space s"
  let ?y = "rev (takeWhile is_space (rev ?t))"
  from rev_split_while[of ?t is_space] have t: "?t = strip s @ ?y"
    by (simp only: strip_def)
  have "s = ?x @ ?t" by simp
  with t have 1: "s = ?x @ strip s @ ?y" by simp
  have 2: "list_all is_space ?x" by (auto simp: list_all_iff dest: set_takeWhileD)
  have 3: "list_all is_space ?y" by (auto simp: list_all_iff dest: set_takeWhileD)
  from 1 2 3 show ?thesis by blast
qed

lemma strip_ends:
  assumes "strip s \<noteq> []"
  shows "\<not> is_space (hd (strip s)) \<and> \<not> is_space (last (strip s))"
proof -
  let ?t = "dropWhile is_space s"
  let ?u = "dropWhile is_space (rev ?t)"
  from assms have u: "?u \<noteq> []" by (simp add: strip_def)
  then have l: "\<not> is_space (hd ?u)" by (rule hd_dropWhile)
  from u have "last (strip s) = hd ?u" by (simp add: strip_def last_rev)
  with l have 1: "\<not> is_space (last (strip s))" by simp
  have tn: "?t \<noteq> []"
  proof
    assume "?t = []"
    with u show False by simp
  qed
  then have ht: "\<not> is_space (hd ?t)" by (rule hd_dropWhile)
  from rev_split_while[of ?t is_space]
  have "?t = strip s @ rev (takeWhile is_space (rev ?t))" by (simp only: strip_def)
  with assms have "hd ?t = hd (strip s)" by (metis hd_append2)
  with ht have 2: "\<not> is_space (hd (strip s))" by simp
  from 1 2 show ?thesis by blast
qed

lemma Link_Location_derive_skills:
  "(Link (derive_skills parse p), Location (derive_skills parse p))
     = (Link_text (fst p), map_option (\<lambda>l. strip (remove_dashes l)) (Location_text (fst p)))"
  by (simp add: Link_derive_skills Location_derive_skills)

lemma Link_Location_derive_plain:
  "(Link (derive_plain parse r), Location (derive_plain parse r))
     = (Link_text r, Location_text r)"
  by (simp add: identity_derive_plain Location_derive_plain)

text \<open>
  C10, as stated: whenever the input has a skills column, the dashes are removed from the
  location and the city holds none.  It fails on a table whose skills column has no value
  in any row: line 26 drops that column, lines 46 to 50 do not run, and the location
  \<open>Abu-Dhabi, UAE\<close> keeps its dash in location and city.
\<close>

theorem location_dashes_counterexample:
  "map Location (clean to_numeric (WithSkills
       [(posting ''900'' ''Abu-Dhabi, UAE'' ''Analyst'' ''u1'', None)]))
     = [Some ''Abu-Dhabi, UAE'']
   \<and> map City (clean to_numeric (WithSkills
       [(posting ''900'' ''Abu-Dhabi, UAE'' ''Analyst'' ''u1'', None)]))
     = [Some ''Abu-Dhabi'']
   \<and> CHR ''-'' \<in> set ''Abu-Dhabi''"
  by (simp add: clean_plain_def drop_duplicates_def posting_def salary_cleaning_def
        location_processing_def extract_city_def)

text \<open>
  C10, amended: when the table has a skills column with a value in some row, the location
  of a cleaned row is the raw location of the same record with every dash removed and
  then stripped of the white space at both ends, and city and country are extracted from
  that text, so neither holds a dash; the location \<open>Abu-Dhabi, UAE\<close> gives the city
  \<open>AbuDhabi\<close>.  When the table has no skills column, or one without any value, the
  location is the raw location, and the same text gives the city \<open>Abu-Dhabi\<close>.
\<close>

theorem location_dashes_removed:
  "((\<exists>p \<in> set rows. snd p \<noteq> None) \<longrightarrow>
      map (\<lambda>row. (Link row, Location row)) (clean parse (WithSkills rows))
        = map (\<lambda>p. (Link_text (fst p),
                      map_option (\<lambda>l. strip (remove_dashes l)) (Location_text (fst p))))
            (drop_duplicates (\<lambda>p. Link_text (fst p)) rows)
      \<and> (\<forall>row \<in> set (clean parse (WithSkills rows)).
            City row = Option.bind (Location row) extract_city
            \<and> Country row = Option.bind (Location row) extract_country
            \<and> (\<forall>l. Location row = Some l \<longrightarrow> CHR ''-'' \<notin> set l)
            \<and> (\<forall>c. City row = Some c \<longrightarrow> CHR ''-'' \<notin> set c)
            \<and> (\<forall>c. Country row = Some c \<longrightarrow> CHR ''-'' \<notin> set c)))
   \<and> ((\<forall>p \<in> set rows. snd p = None) \<longrightarrow>
      clean parse (WithSkills rows) = clean parse (NoSkills (map fst rows)))
   \<and> map (\<lambda>row. (Link row, Location row)) (clean parse (NoSkills rows'))
       = map (\<lambda>r. (Link_text r, Location_text r)) (drop_duplicates (\<lambda>r. r) rows')
   \<and> (\<forall>row \<in> set (clean parse (NoSkills rows')).
        City row = Option.bind (Location row) extract_city
        \<and> Country row = Option.bind (Location row) extract_country)
   \<and> remove_dashes (a @ b) = remove_dashes a @ remove_dashes b
   \<and> remove_dashes [c] = (if c = CHR ''-'' then [] else [c])
   \<and> (\<exists>x y. s = x @ strip s @ y \<and> list_all is_space x \<and> list_all is_space y)
   \<and> (strip s \<noteq> [] \<longrightarrow> \<not> is_space (hd (strip s)) \<and> \<not> is_space (last (strip s)))
   \<and> map City (clean parse (WithSkills [(posting sal ''Abu-Dhabi, UAE'' title url, Some sk)]))
       = [Some ''AbuDhabi'']
   \<and> map (\<lambda>row. (Location row, City row, Country row))
         (clean parse (WithSkills [(posting sal '' - Abu-Dhabi, UAE - '' title url, Some sk)]))
       = [(Some ''AbuDhabi, UAE'', Some ''AbuDhabi'', Some ''UAE'')]
   \<and> map City (clean parse (NoSkills [posting sal ''Abu-Dhabi, UAE'' title url]))
       = [Some ''Abu-Dhabi'']"
proof -
  let ?k = "\<lambda>p. Link_text (fst p)"
  have 1: "(\<exists>p \<in> set rows. snd p \<noteq> None) \<longrightarrow>
      map (\<lambda>row. (Link row, Location row)) (clean parse (WithSkills rows))
        = map (\<lambda>p. (Link_text (fst p),
                      map_option (\<lambda>l. strip (remove_dashes l)) (Location_text (fst p))))
            (drop_duplicates ?k rows)
      \<and> (\<forall>row \<in> set (clean parse (WithSkills rows)).
            City row = Option.bind (Location row) extract_city
            \<and> Country row = Option.bind (Location row) extract_country
            \<and> (\<forall>l. Location row = Some l \<longrightarrow> CHR ''-'' \<notin> set l)
            \<and> (\<forall>c. City row = Some c \<longrightarrow> CHR ''-'' \<notin> set c)
            \<and> (\<forall>c. Country row = Some c \<longrightarrow> CHR ''-'' \<notin> set c))"
  proof
    assume h: "\<exists>p \<in> set rows. snd p \<noteq> None"
    note c = clean_WithSkills[OF h, of parse]
    have m: "map (\<lambda>row. (Link row, Location row)) (clean parse (WithSkills rows))
        = map (\<lambda>p. (Link_text (fst p),
                      map_option (\<lambda>l. strip (remove_dashes l)) (Location_text (fst p))))
            (drop_duplicates ?k rows)"
      by (simp add: c Link_Location_derive_skills comp_def del: clean.simps)
    have r: "\<forall>row \<in> set (clean parse (WithSkills rows)).
            City row = Option.bind (Location row) extract_city
            \<and> Country row = Option.bind (Location row) extract_country
            \<and> (\<forall>l. Location row = Some l \<longrightarrow> CHR ''-'' \<notin> set l)
            \<and> (\<forall>c. City row = Some c \<longrightarrow> CHR ''-'' \<notin> set c)
            \<and> (\<forall>c. Country row = Some c \<longrightarrow> CHR ''-'' \<notin> set c)"
    proof
      fix row assume "row \<in> set (clean parse (WithSkills rows))"
      then obtain p where r: "row = derive_skills parse p"
        by (auto simp: c simp del: clean.simps)
      from City_Country_derive_skills[of parse p] derive_skills_no_dash[of parse p]
      show "City row = Option.bind (Location row) extract_city
            \<and> Country row = Option.bind (Location row) extract_country
            \<and> (\<forall>l. Location row = Some l \<longrightarrow> CHR ''-'' \<notin> set l)
            \<and> (\<forall>c. City row = Some c \<longrightarrow> CHR ''-'' \<notin> set c)
            \<and> (\<forall>c. Country row = Some c \<longrightarrow> CHR ''-'' \<notin> set c)"
        unfolding r by blast
    qed
    from m r show "map (\<lambda>row. (Link row, Location row)) (clean parse (WithSkills rows))
        = map (\<lambda>p. (Link_text (fst p),
                      map_option (\<lambda>l. strip (remove_dashes l)) (Location_text (fst p))))
            (drop_duplicates ?k rows)
      \<and> (\<forall>row \<in> set (clean parse (WithSkills rows)).
            City row = Option.bind (Location row) extract_city
            \<and> Country row = Option.bind (Location row) extract_country
            \<and> (\<forall>l. Location row = Some l \<longrightarrow> CHR ''-'' \<notin> set l)
            \<and> (\<forall>c. City row = Some c \<longrightarrow> CHR ''-'' \<notin> set c)
            \<and> (\<forall>c. Country row = Some c \<longrightarrow> CHR ''-'' \<notin> set c))" by blast
  qed
  have 2: "(\<forall>p \<in> set rows. snd p = None) \<longrightarrow>
      clean parse (WithSkills rows) = clean parse (NoSkills (map fst rows))"
    by simp
  have 3: "map (\<lambda>row. (Link row, Location row)) (clean parse (NoSkills rows'))
       = map (\<lambda>r. (Link_text r, Location_text r)) (drop_duplicates (\<lambda>r. r) rows')"
    by (simp add: clean_NoSkills Link_Location_derive_plain comp_def del: clean.simps)
  have 4: "\<forall>row \<in> set (clean parse (NoSkills rows')).
        City row = Option.bind (Location row) extract_city
        \<and> Country row = Option.bind (Location row) extract_country"
  proof
    fix row assume "row \<in> set (clean parse (NoSkills rows'))"
    with clean_NoSkills_mem obtain r where r: "row = derive_plain parse r" by blast
    from City_Country_derive_plain[of parse r]
    show "City row = Option.bind (Location row) extract_city
        \<and> Country row = Option.bind (Location row) extract_country"
      unfolding r by blast
  qed
  have 5: "remove_dashes (a @ b) = remove_dashes a @ remove_dashes b"
    by (simp add: remove_dashes_def)
  have 6: "remove_dashes [c] = (if c = CHR ''-'' then [] else [c])"
    by (simp add: remove_dashes_def)
  have 7: "map City (clean parse (WithSkills [(posting sal ''Abu-Dhabi, UAE'' title url, Some sk)]))
       = [Some ''AbuDhabi'']"
    by (simp add: clean_skills_def drop_duplicates_def posting_def salary_cleaning_def
          location_processing_def company_processing_def skills_processing_def strip_def
          remove_dashes_def is_space_def extract_city_def)
  have 8: "map (\<lambda>row. (Location row, City row, Country row))
         (clean parse (WithSkills [(posting sal '' - Abu-Dhabi, UAE - '' title url, Some sk)]))
       = [(Some ''AbuDhabi, UAE'', Some ''AbuDhabi'', Some ''UAE'')]"
    by (simp add: clean_skills_def drop_duplicates_def posting_def salary_cleaning_def
          location_processing_def company_processing_def skills_processing_def strip_def
          remove_dashes_def is_space_def extract_city_def match_country_def is_word_def
          at_end_def)
  have 9: "map City (clean parse (NoSkills [posting sal ''Abu-Dhabi, UAE'' title url]))
       = [Some ''Abu-Dhabi'']"
    by (simp add: clean_plain_def drop_duplicates_def posting_def salary_cleaning_def
          location_processing_def extract_city_def)
  from 1 2 3 4 5 6 strip_decompose[of s] strip_ends[of s] 7 8 9 show ?thesis by blast
qed

theorem location_dashes_removed_witness:
  "map (\<lambda>row. (Link row, Location row)) (clean to_numeric (WithSkills
       [(posting ''900'' '' - Abu-Dhabi, UAE - '' ''Analyst'' ''u1'', Some ''SQL''),
        (posting ''950'' ''Port-Said, Egypt'' ''Analyst'' ''u1'', None),
        (posting ''800'' ''Remote'' ''Analyst'' ''u2'', None)]))
     = [(Some ''u1'', Some ''AbuDhabi, UAE''), (Some ''u2'', Some ''Remote'')]
   \<and> map City (clean to_numeric (WithSkills
       [(posting ''900'' '' - Abu-Dhabi, UAE - '' ''Analyst'' ''u1'', Some ''SQL''),
        (posting ''950'' ''Port-Said, Egypt'' ''Analyst'' ''u1'', None),
        (posting ''800'' ''Remote'' ''Analyst'' ''u2'', None)]))
     = [Some ''AbuDhabi'', Some ''Remote'']
   \<and> CHR ''-'' \<notin> set ''AbuDhabi, UAE'' \<and> CHR ''-'' \<notin> set ''AbuDhabi''
   \<and> strip ''  AbuDhabi, UAE  '' = ''AbuDhabi, UAE''
   \<and> ''  AbuDhabi, UAE  '' = ''  '' @ strip ''  AbuDhabi, UAE  '' @ ''  ''
   \<and> list_all is_space ''  ''
   \<and> map (\<lambda>row. (Link row, Location row)) (clean to_numeric (WithSkills
       [(posting ''900'' ''Abu-Dhabi, UAE'' ''Analyst'' ''u1'', None)]))
     = [(Some ''u1'', Some ''Abu-Dhabi, UAE'')]
   \<and> map (\<lambda>row. (Link row, Location row)) (clean to_numeric (NoSkills
       [posting ''900'' ''Abu-Dhabi, UAE'' ''Analyst'' ''u1'']))
     = [(Some ''u1'', Some ''Abu-Dhabi, UAE'')]"
proof -
  let ?w = "[(posting ''900'' '' - Abu-Dhabi, UAE - '' ''Analyst'' ''u1'', Some ''SQL''),
        (posting ''950'' ''Port-Said, Egypt'' ''Analyst'' ''u1'', None),
        (posting ''800'' ''Remote'' ''Analyst'' ''u2'', None)]"
  let ?e = "[(posting ''900'' ''Abu-Dhabi, UAE'' ''Analyst'' ''u1'', None :: cell)]"
  let ?n = "[posting ''900'' ''Abu-Dhabi, UAE'' ''Analyst'' ''u1'']"
  note T = location_dashes_removed[of ?w to_numeric ?n]
  note E = location_dashes_removed[of ?e to_numeric "map fst ?e"]
  have h: "\<exists>p \<in> set ?w. snd p \<noteq> None" by simp
  have he: "\<forall>p \<in> set ?e. snd p = None" by simp
  have dk: "drop_duplicates (\<lambda>p. Link_text (fst p)) ?w
           = [(posting ''900'' '' - Abu-Dhabi, UAE - '' ''Analyst'' ''u1'', Some ''SQL''),
              (posting ''800'' ''Remote'' ''Analyst'' ''u2'', None)]"
    by (simp add: drop_duplicates_def posting_def)
  have s1: "strip (remove_dashes '' - Abu-Dhabi, UAE - '') = ''AbuDhabi, UAE''"
    by (simp add: strip_def remove_dashes_def is_space_def)
  have s2: "strip (remove_dashes ''Remote'') = ''Remote''"
    by (simp add: strip_def remove_dashes_def is_space_def)
  have s3: "strip ''  AbuDhabi, UAE  '' = ''AbuDhabi, UAE''"
    by (simp add: strip_def is_space_def)
  from T h have m: "map (\<lambda>row. (Link row, Location row)) (clean to_numeric (WithSkills ?w))
        = map (\<lambda>p. (Link_text (fst p),
                      map_option (\<lambda>l. strip (remove_dashes l)) (Location_text (fst p))))
            (drop_duplicates (\<lambda>p. Link_text (fst p)) ?w)" by blast
  have 1: "map (\<lambda>row. (Link row, Location row)) (clean to_numeric (WithSkills ?w))
     = [(Some ''u1'', Some ''AbuDhabi, UAE''), (Some ''u2'', Some ''Remote'')]"
    unfolding m dk by (simp add: posting_def s1 s2)
  from T h have b: "\<forall>row \<in> set (clean to_numeric (WithSkills ?w)).
            City row = Option.bind (Location row) extract_city" by blast
  then have "map City (clean to_numeric (WithSkills ?w))
        = map (\<lambda>q. Option.bind (snd q) extract_city)
            (map (\<lambda>row. (Link row, Location row)) (clean to_numeric (WithSkills ?w)))"
    by (simp add: comp_def del: clean.simps)
  then have 2: "map City (clean to_numeric (WithSkills ?w)) = [Some ''AbuDhabi'', Some ''Remote'']"
    unfolding 1 by (simp add: extract_city_def)
  have 3: "CHR ''-'' \<notin> set ''AbuDhabi, UAE'' \<and> CHR ''-'' \<notin> set ''AbuDhabi''" by simp
  have 4: "''  AbuDhabi, UAE  '' = ''  '' @ strip ''  AbuDhabi, UAE  '' @ ''  ''
           \<and> list_all is_space ''  ''"
    by (simp add: s3 is_space_def)
  from E have n: "map (\<lambda>row. (Link row, Location row)) (clean to_numeric (NoSkills (map fst ?e)))
       = map (\<lambda>r. (Link_text r, Location_text r)) (drop_duplicates (\<lambda>r. r) (map fst ?e))"
    by blast
  have n': "map (\<lambda>row. (Link row, Location row)) (clean to_numeric (NoSkills ?n))
       = [(Some ''u1'', Some ''Abu-Dhabi, UAE'')]"
    using n by (simp add: drop_duplicates_def posting_def del: clean.simps)
  from E he have "clean to_numeric (WithSkills ?e) = clean to_numeric (NoSkills (map fst ?e))"
    by blast
  with n' have e': "map (\<lambda>row. (Link row, Location row)) (clean to_numeric (WithSkills ?e))
       = [(Some ''u1'', Some ''Abu-Dhabi, UAE'')]"
    by (simp del: clean.simps)
  from 1 2 3 s3 4 e' n' show ?thesis by blast
qed

lemma word_not_space: "is_word c \<Longrightarrow> \<not> is_space c"
  by (auto simp: is_word_def is_space_def Let_def)

lemma comma_class: "\<not> is_word (CHR '','') \<and> \<not> is_space (CHR '','')"
  by (simp add: is_word_def is_space_def)

lemma linefeed_not_word: "\<not> is_word (CHR 0x0A)"
  by (simp add: is_word_def)

lemma mem_dropWhile: "x \<in> set xs \<Longrightarrow> \<not> P x \<Longrightarrow> x \<in> set (dropWhile P xs)"
  by (induction xs) auto

lemma match_country_blocked:
  "CHR '','' \<in> set cs \<Longrightarrow> match_country (c # cs) = None"
proof -
  assume a: "CHR '','' \<in> set cs"
  let ?e = "dropWhile is_word (dropWhile is_space cs)"
  from a comma_class have "CHR '','' \<in> set ?e" by (simp add: mem_dropWhile)
  then have "?e \<noteq> [] \<and> ?e \<noteq> [CHR 0x0A]" by (cases ?e) auto
  then have "\<not> at_end ?e" by (simp only: at_end_def) blast
  then show ?thesis by (simp add: match_country_def Let_def)
qed

lemma match_country_hit:
  assumes "g \<noteq> []" "list_all is_word g" "list_all is_space ws" "at_end e"
  shows "match_country (CHR '','' # ws @ g @ e) = Some g"
proof -
  from assms(1) obtain h t where g: "g = h # t" by (cases g) auto
  with assms(2) have "\<not> is_space h" by (simp add: word_not_space)
  with assms(3) g have r: "dropWhile is_space (ws @ g @ e) = g @ e"
    by (simp add: dropWhile_append3 list_all_iff)
  from assms(4) linefeed_not_word have ne: "e = [] \<or> \<not> is_word (hd e)"
    by (auto simp: at_end_def)
  from assms(2) have ta: "takeWhile is_word g = g" "dropWhile is_word g = []"
    by (auto simp: list_all_iff)
  have t: "takeWhile is_word (g @ e) = g"
  proof (cases e)
    case Nil with ta show ?thesis by simp
  next
    case (Cons d ds)
    with ne have "\<not> is_word d" by simp
    with Cons assms(2) show ?thesis by (simp add: takeWhile_tail list_all_iff)
  qed
  have d: "dropWhile is_word (g @ e) = e"
  proof (cases e)
    case Nil with ta show ?thesis by simp
  next
    case (Cons d ds)
    with ne have "\<not> is_word d" by simp
    with Cons assms(2) show ?thesis by (simp add: dropWhile_append3 list_all_iff)
  qed
  from r t d assms(1,4) show ?thesis by (simp add: match_country_def Let_def)
qed

lemma extract_country_hit:
  assumes "g \<noteq> []" "list_all is_word g" "list_all is_space ws" "at_end e"
  shows "extract_country (pre @ CHR '','' # ws @ g @ e) = Some g"
proof (induction pre)
  case Nil
  from match_country_hit[OF assms] show ?case by simp
next
  case (Cons c pre)
  have "match_country (c # pre @ CHR '','' # ws @ g @ e) = None"
    by (rule match_country_blocked) simp
  with Cons show ?case by simp
qed

lemma extract_country_sound:
  "extract_country loc = Some g \<Longrightarrow>
   \<exists>pre ws e. loc = pre @ CHR '','' # ws @ g @ e \<and> g \<noteq> [] \<and> list_all is_word g
       \<and> list_all is_space ws \<and> at_end e"
proof (induction loc)
  case Nil then show ?case by simp
next
  case (Cons c cs)
  show ?case
  proof (cases "match_country (c # cs)")
    case None
    with Cons.prems have "extract_country cs = Some g" by simp
    from Cons.IH[OF this] obtain pre ws e where
      "cs = pre @ CHR '','' # ws @ g @ e \<and> g \<noteq> [] \<and> list_all is_word g
       \<and> list_all is_space ws \<and> at_end e" by blast
    then have "c # cs = (c # pre) @ CHR '','' # ws @ g @ e \<and> g \<noteq> [] \<and> list_all is_word g
       \<and> list_all is_space ws \<and> at_end e" by simp
    then show ?thesis by blast
  next
    case (Some h)
    with Cons.prems have hg: "h = g" by simp
    from Some hg match_country_Some[of "c # cs" g] have c: "c = CHR '',''"
      and g: "g = takeWhile is_word (dropWhile is_space cs)" and ne: "g \<noteq> []"
      and e: "at_end (dropWhile is_word (dropWhile is_space cs))" by auto
    let ?ws = "takeWhile is_space cs"
    let ?e = "dropWhile is_word (dropWhile is_space cs)"
    have "cs = ?ws @ g @ ?e" by (simp add: g)
    with c have 1: "c # cs = [] @ CHR '','' # ?ws @ g @ ?e" by simp
    have 2: "list_all is_space ?ws" by (auto simp: list_all_iff dest: set_takeWhileD)
    have 3: "list_all is_word g" unfolding g by (auto simp: list_all_iff dest: set_takeWhileD)
    from 1 2 3 ne e show ?thesis by blast
  qed
qed

lemma extract_country_iff:
  "extract_country loc = Some g \<longleftrightarrow>
   (\<exists>pre ws e. loc = pre @ CHR '','' # ws @ g @ e \<and> g \<noteq> [] \<and> list_all is_word g
       \<and> list_all is_space ws \<and> at_end e)"
  using extract_country_sound extract_country_hit by blast

lemma extract_country_no_comma: "CHR '','' \<notin> set loc \<Longrightarrow> extract_country loc = None"
proof (cases "extract_country loc")
  case None then show ?thesis by simp
next
  case (Some g)
  assume a: "CHR '','' \<notin> set loc"
  from extract_country_sound[OF Some] obtain pre ws e where "loc = pre @ CHR '','' # ws @ g @ e"
    by blast
  with a show ?thesis by simp
qed

lemma extract_city_prefix:
  "c \<noteq> [] \<Longrightarrow> CHR '','' \<notin> set c \<Longrightarrow>
   extract_city c = Some c \<and> extract_city (c @ CHR '','' # rest) = Some c"
proof -
  assume a: "c \<noteq> []" and b: "CHR '','' \<notin> set c"
  from b have all: "\<forall>x\<in>set c. x \<noteq> CHR '',''" by blast
  from all have 1: "takeWhile (\<lambda>x. x \<noteq> CHR '','') c = c" by (simp add: takeWhile_eq_all_conv)
  from all have 2: "takeWhile (\<lambda>x. x \<noteq> CHR '','') (c @ CHR '','' # rest) = c"
    by (simp add: takeWhile_tail)
  from a show ?thesis by (simp add: extract_city_def Let_def 1 2)
qed

lemma clean_city_country:
  "row \<in> set (clean parse t) \<Longrightarrow>
   City row = Option.bind (Location row) extract_city
   \<and> Country row = Option.bind (Location row) extract_country"
proof (cases t)
  case (NoSkills rows)
  assume "row \<in> set (clean parse t)"
  with NoSkills clean_NoSkills_mem obtain r where "row = derive_plain parse r" by blast
  with City_Country_derive_plain[of parse r] show ?thesis by simp
next
  case (WithSkills rows)
  assume "row \<in> set (clean parse t)"
  with WithSkills have "row \<in> set (clean parse (WithSkills rows))" by simp
  from clean_WithSkills_mem[OF this] show ?thesis
  proof
    assume "\<exists>p\<in>set rows. row = derive_skills parse p"
    then obtain p where "row = derive_skills parse p" by blast
    with City_Country_derive_skills[of parse p] show ?thesis by simp
  next
    assume "\<exists>p\<in>set rows. snd p = None \<and> row = derive_plain parse (fst p)"
    then obtain r where "row = derive_plain parse r" by blast
    with City_Country_derive_plain[of parse r] show ?thesis by simp
  qed
qed

text \<open>
  C4, amended: city and country of every cleaned row are extracted from its location.
  The city is the text before the first comma, or the whole text when there is no comma,
  and is missing when that text is empty.  The country is present exactly when the
  location ends in a comma, white space if any, and one non-empty run of word characters
  (letters, digits, underscore), after which only a final line feed may follow; it is
  that run.  So a location without a comma has no country, and neither has one whose last
  piece holds several words.  \<open>Cairo, Egypt\<close> gives Cairo and Egypt; \<open>Remote\<close> gives the
  city Remote and no country.
\<close>

theorem city_country_extraction:
  "(\<forall>row \<in> set (clean parse t).
        City row = Option.bind (Location row) extract_city
        \<and> Country row = Option.bind (Location row) extract_country)
   \<and> (c \<noteq> [] \<and> CHR '','' \<notin> set c \<longrightarrow>
        extract_city c = Some c \<and> extract_city (c @ CHR '','' # rest) = Some c)
   \<and> extract_city (CHR '','' # rest) = None
   \<and> extract_city [] = None
   \<and> (extract_country loc = Some g \<longleftrightarrow>
        (\<exists>pre ws e. loc = pre @ CHR '','' # ws @ g @ e \<and> g \<noteq> [] \<and> list_all is_word g
            \<and> list_all is_space ws \<and> at_end e))
   \<and> (CHR '','' \<notin> set loc \<longrightarrow> extract_country loc = None)
   \<and> extract_city ''Cairo, Egypt'' = Some ''Cairo''
   \<and> extract_country ''Cairo, Egypt'' = Some ''Egypt''
   \<and> extract_city ''Remote'' = Some ''Remote''
   \<and> extract_country ''Remote'' = None"
proof -
  have 1: "\<forall>row \<in> set (clean parse t).
        City row = Option.bind (Location row) extract_city
        \<and> Country row = Option.bind (Location row) extract_country"
    using clean_city_country by blast
  have 2: "c \<noteq> [] \<and> CHR '','' \<notin> set c \<longrightarrow>
        extract_city c = Some c \<and> extract_city (c @ CHR '','' # rest) = Some c"
    using extract_city_prefix by blast
  have 3: "extract_city (CHR '','' # rest) = None" "extract_city [] = None"
    by (simp_all add: extract_city_def)
  have 4: "extract_country loc = Some g \<longleftrightarrow>
        (\<exists>pre ws e. loc = pre @ CHR '','' # ws @ g @ e \<and> g \<noteq> [] \<and> list_all is_word g
            \<and> list_all is_space ws \<and> at_end e)"
    by (rule extract_country_iff)
  have 5: "CHR '','' \<notin> set loc \<longrightarrow> extract_country loc = None"
    using extract_country_no_comma by blast
  have 6: "extract_city ''Cairo, Egypt'' = Some ''Cairo''" "extract_city ''Remote'' = Some ''Remote''"
    by (simp_all add: extract_city_def)
  have 7: "extract_country ''Cairo, Egypt'' = Some ''Egypt''"
    by (simp add: match_country_def is_word_def is_space_def at_end_def)
  have 8: "extract_country ''Remote'' = None"
    by (simp add: match_country_def)
  from 1 2 3 4 5 6 7 8 show ?thesis by blast
qed

text \<open>
  C4, as stated: the country is the last comma-separated piece of the location.  It
  fails on \<open>Dubai, United Arab Emirates\<close>, which gets no country.
\<close>

theorem country_trailing_token_counterexample:
  "map Country (clean to_numeric (NoSkills
       [posting ''900'' ''Dubai, United Arab Emirates'' ''Analyst'' ''u1''])) = [None]
   \<and> spec_country ''Dubai, United Arab Emirates'' = Some ''United Arab Emirates''"
  by (simp add: clean_plain_def clean_skills_def drop_duplicates_def posting_def salary_cleaning_def location_processing_def
        match_country_def is_word_def is_space_def at_end_def spec_country_def strip_def)

theorem city_country_extraction_witness:
  "map City (clean to_numeric (NoSkills
       [posting ''900'' ''Cairo, Egypt'' ''Analyst'' ''u1'',
        posting ''950'' ''Remote'' ''Analyst'' ''u2''])) = [Some ''Cairo'', Some ''Remote'']
   \<and> map Country (clean to_numeric (NoSkills
       [posting ''900'' ''Cairo, Egypt'' ''Analyst'' ''u1'',
        posting ''950'' ''Remote'' ''Analyst'' ''u2''])) = [Some ''Egypt'', None]
   \<and> ''Cairo'' \<noteq> [] \<and> CHR '','' \<notin> set ''Cairo''
   \<and> extract_city (''Cairo'' @ CHR '','' # '' Egypt'') = Some ''Cairo''
   \<and> extract_country ''Cairo, Egypt'' = Some ''Egypt''
   \<and> ''Cairo, Egypt'' = ''Cairo'' @ CHR '','' # '' '' @ ''Egypt'' @ []
   \<and> list_all is_word ''Egypt'' \<and> list_all is_space '' '' \<and> at_end []
   \<and> CHR '','' \<notin> set ''Remote''
   \<and> extract_country ''Remote'' = None"
proof -
  let ?t = "NoSkills [posting ''900'' ''Cairo, Egypt'' ''Analyst'' ''u1'',
        posting ''950'' ''Remote'' ''Analyst'' ''u2'']"
  have a: "map Location (clean to_numeric ?t) = [Some ''Cairo, Egypt'', Some ''Remote'']"
    by (simp add: clean_plain_def clean_skills_def drop_duplicates_def posting_def salary_cleaning_def location_processing_def)
  have h: "''Cairo'' \<noteq> [] \<and> CHR '','' \<notin> set ''Cairo''" by simp
  have h2: "CHR '','' \<notin> set ''Remote''" by simp
  have h3: "''Cairo, Egypt'' = ''Cairo'' @ CHR '','' # '' '' @ ''Egypt'' @ []
     \<and> ''Egypt'' \<noteq> [] \<and> list_all is_word ''Egypt'' \<and> list_all is_space '' '' \<and> at_end []"
    by (simp add: is_word_def is_space_def at_end_def)
  note T = city_country_extraction[of to_numeric ?t "''Cairo''" "'' Egypt''"
              "''Cairo, Egypt''" "''Egypt''"]
  note R = city_country_extraction[of to_numeric ?t "''Cairo''" "'' Egypt''"
              "''Remote''" "''Egypt''"]
  from T h have c: "extract_city (''Cairo'' @ CHR '','' # '' Egypt'') = Some ''Cairo''" by blast
  from T h3 have k: "extract_country ''Cairo, Egypt'' = Some ''Egypt''" by blast
  from R h2 have n: "extract_country ''Remote'' = None" by blast
  from T have r: "extract_city ''Remote'' = Some ''Remote''" by blast
  from T have b: "\<forall>row \<in> set (clean to_numeric ?t).
        City row = Option.bind (Location row) extract_city
        \<and> Country row = Option.bind (Location row) extract_country" by blast
  then have m: "map City (clean to_numeric ?t)
                  = map (\<lambda>l. Option.bind l extract_city) (map Location (clean to_numeric ?t))"
    and m': "map Country (clean to_numeric ?t)
                  = map (\<lambda>l. Option.bind l extract_country) (map Location (clean to_numeric ?t))"
    by (simp_all del: clean.simps)
  from c have c': "extract_city ''Cairo, Egypt'' = Some ''Cairo''" by simp
  have 1: "map City (clean to_numeric ?t) = [Some ''Cairo'', Some ''Remote'']"
    unfolding m a using c' r by simp
  have 2: "map Country (clean to_numeric ?t) = [Some ''Egypt'', None]"
    unfolding m' a using k n by simp
  from 1 2 h h2 h3 c k n show ?thesis by blast
qed

subsection \<open>Seniority\<close>

lemma match_keyword_iff:
  "match_keyword kw s = Some g \<longleftrightarrow>
   (\<exists>post. s = g @ post \<and> length g = length kw \<and> map ascii_lower g = map ascii_lower kw
      \<and> word_boundary (if g = [] then None else Some (last g))
            (case post of [] \<Rightarrow> None | d # _ \<Rightarrow> Some d))"
proof
  assume a: "match_keyword kw s = Some g"
  then have g: "g = take (length kw) s" and l: "length kw \<le> length s"
    and m: "map ascii_lower g = map ascii_lower kw"
    and b: "word_boundary (if g = [] then None else Some (last g))
            (case drop (length kw) s of [] \<Rightarrow> None | d # _ \<Rightarrow> Some d)"
    by (auto simp: match_keyword_def Let_def split: if_splits)
  from g have "s = g @ drop (length kw) s" by simp
  moreover from g l have "length g = length kw" by simp
  ultimately show "\<exists>post. s = g @ post \<and> length g = length kw \<and> map ascii_lower g = map ascii_lower kw
      \<and> word_boundary (if g = [] then None else Some (last g))
            (case post of [] \<Rightarrow> None | d # _ \<Rightarrow> Some d)"
    using m b by blast
next
  assume "\<exists>post. s = g @ post \<and> length g = length kw \<and> map ascii_lower g = map ascii_lower kw
      \<and> word_boundary (if g = [] then None else Some (last g))
            (case post of [] \<Rightarrow> None | d # _ \<Rightarrow> Some d)"
  then obtain post where s: "s = g @ post" and l: "length g = length kw"
    and m: "map ascii_lower g = map ascii_lower kw"
    and b: "word_boundary (if g = [] then None else Some (last g))
            (case post of [] \<Rightarrow> None | d # _ \<Rightarrow> Some d)" by blast
  from s l have t: "take (length kw) s = g" "drop (length kw) s = post" by simp_all
  from s l have "length kw \<le> length s" by simp
  with t m b show "match_keyword kw s = Some g"
    by (simp add: match_keyword_def Let_def)
qed

lemma match_alternatives_Some:
  "match_alternatives kws s = Some g \<Longrightarrow> \<exists>kw\<in>set kws. match_keyword kw s = Some g"
  by (induction kws) (auto split: option.splits)

lemma match_alternatives_None:
  "match_alternatives kws s = None \<Longrightarrow> kw \<in> set kws \<Longrightarrow> match_keyword kw s = None"
  by (induction kws) (auto split: option.splits)

lemma keywords_nonempty: "kw \<in> set seniority_keywords \<Longrightarrow> kw \<noteq> []"
  by (auto simp: seniority_keywords_def)

lemma occurrence_at_head:
  assumes "occurrence prev [] g post"
  shows "g \<noteq> [] \<and> word_boundary prev (Some (hd (g @ post)))
         \<and> match_alternatives seniority_keywords (g @ post) \<noteq> None"
proof -
  from assms obtain kw where kw: "kw \<in> set seniority_keywords"
    and m: "map ascii_lower g = map ascii_lower kw"
    by (auto simp: occurrence_def)
  from m have l: "length g = length kw" by (rule map_eq_imp_length_eq)
  with keywords_nonempty[OF kw] have ne: "g \<noteq> []" by auto
  from assms have b: "word_boundary (if g = [] then None else Some (last g))
            (case post of [] \<Rightarrow> None | d # _ \<Rightarrow> Some d)"
    by (simp add: occurrence_def)
  from l m b have "match_keyword kw (g @ post) = Some g"
    by (subst match_keyword_iff) blast
  with match_alternatives_None[of seniority_keywords "g @ post" kw] kw
  have 1: "match_alternatives seniority_keywords (g @ post) \<noteq> None" by auto
  from assms ne have 2: "word_boundary prev (Some (hd (g @ post)))"
    by (cases g) (auto simp: occurrence_def)
  from ne 1 2 show ?thesis by blast
qed

lemma head_occurrence:
  assumes "word_boundary prev (Some c)" "match_alternatives seniority_keywords (c # cs) = Some g"
  shows "\<exists>post. c # cs = g @ post \<and> occurrence prev [] g post"
proof -
  from match_alternatives_Some[OF assms(2)] obtain kw where kw: "kw \<in> set seniority_keywords"
    and mk: "match_keyword kw (c # cs) = Some g" by blast
  from mk[unfolded match_keyword_iff] obtain post where s: "c # cs = g @ post"
    and l: "length g = length kw" and m: "map ascii_lower g = map ascii_lower kw"
    and b: "word_boundary (if g = [] then None else Some (last g))
            (case post of [] \<Rightarrow> None | d # _ \<Rightarrow> Some d)" by blast
  from l keywords_nonempty[OF kw] have ne: "g \<noteq> []" by auto
  with s have "hd g = c" by (cases g) auto
  with ne assms(1) have "word_boundary prev (case g of [] \<Rightarrow> None | h # _ \<Rightarrow> Some h)"
    by (cases g) auto
  with kw m b have "occurrence prev [] g post" by (auto simp: occurrence_def)
  with s show ?thesis by blast
qed

lemma occurrence_shift:
  "occurrence prev (c # pre) g post = occurrence (Some c) pre g post"
  by (simp add: occurrence_def)

lemma search_seniority_Some:
  "search_seniority prev s = Some g \<Longrightarrow>
   \<exists>pre post. s = pre @ g @ post \<and> occurrence prev pre g post
      \<and> (\<forall>pre' g' post'. s = pre' @ g' @ post' \<and> occurrence prev pre' g' post'
            \<longrightarrow> length pre \<le> length pre')"
proof (induction s arbitrary: prev)
  case Nil then show ?case by simp
next
  case (Cons c cs)
  show ?case
  proof (cases "word_boundary prev (Some c)
                \<and> match_alternatives seniority_keywords (c # cs) \<noteq> None")
    case True
    with Cons.prems have ma: "match_alternatives seniority_keywords (c # cs) = Some g"
      by (auto split: option.splits)
    from True head_occurrence[OF _ ma] obtain post where
      "c # cs = [] @ g @ post" "occurrence prev [] g post" by auto
    then show ?thesis by (metis le0 list.size(3))
  next
    case False
    with Cons.prems have rec: "search_seniority (Some c) cs = Some g"
      by (auto split: option.splits if_splits)
    from Cons.IH[OF rec] obtain pre post where s: "cs = pre @ g @ post"
      and o: "occurrence (Some c) pre g post"
      and least: "\<forall>pre' g' post'. cs = pre' @ g' @ post' \<and> occurrence (Some c) pre' g' post'
            \<longrightarrow> length pre \<le> length pre'" by blast
    have "\<forall>pre' g' post'. c # cs = pre' @ g' @ post' \<and> occurrence prev pre' g' post'
            \<longrightarrow> length (c # pre) \<le> length pre'"
    proof (intro allI impI)
      fix pre' g' post'
      assume a: "c # cs = pre' @ g' @ post' \<and> occurrence prev pre' g' post'"
      show "length (c # pre) \<le> length pre'"
      proof (cases pre')
        case Nil
        with a occurrence_at_head[of prev g' post'] False show ?thesis
          by (metis append_Nil list.sel(1))
      next
        case (Cons d ds)
        with a have "d = c" "cs = ds @ g' @ post'" by auto
        moreover from a Cons \<open>d = c\<close> have "occurrence (Some c) ds g' post'"
          by (simp add: occurrence_shift)
        ultimately have "length pre \<le> length ds" using least by blast
        with Cons show ?thesis by simp
      qed
    qed
    moreover from s have "c # cs = (c # pre) @ g @ post" by simp
    moreover from o have "occurrence prev (c # pre) g post" by (simp add: occurrence_shift)
    ultimately show ?thesis by blast
  qed
qed

lemma search_seniority_None:
  "search_seniority prev s = None \<Longrightarrow> s = pre @ g @ post \<Longrightarrow> \<not> occurrence prev pre g post"
proof (induction s arbitrary: prev pre)
  case Nil
  then have "pre = []" "g = []" by auto
  then show ?case using keywords_nonempty by (auto simp: occurrence_def)
next
  case (Cons c cs)
  show ?case
  proof (cases pre)
    case Nil
    show ?thesis
    proof
      assume o: "occurrence prev pre g post"
      with Nil occurrence_at_head[of prev g post] Cons.prems(2)
      have "word_boundary prev (Some c)" "match_alternatives seniority_keywords (c # cs) \<noteq> None"
        by (metis append_Nil list.sel(1))+
      with Cons.prems(1) show False by (auto split: option.splits)
    qed
  next
    case (Cons d ds)
    with Cons.prems(2) have dc: "d = c" and cs: "cs = ds @ g @ post" by auto
    from Cons.prems(1) have "search_seniority (Some c) cs = None"
      by (auto split: option.splits if_splits)
    from Cons.IH[OF this cs] Cons dc show ?thesis by (simp add: occurrence_shift)
  qed
qed

lemma lowered_keywords:
  "set (map (map ascii_lower) seniority_keywords)
     = {''senior'', ''junior'', ''intern'', ''lead'', ''manager''}"
  by (simp add: seniority_keywords_def ascii_lower_def)

lemma clean_seniority:
  "row \<in> set (clean parse t) \<Longrightarrow>
   Seniority row = Option.bind (Job_Title row) extract_seniority
   \<and> (\<exists>r \<in> set (raw_rows t). Job_Title row = Job_Title_text r)"
proof (cases t)
  case (NoSkills rows)
  assume "row \<in> set (clean parse t)"
  with NoSkills clean_NoSkills_mem obtain r where "r \<in> set rows" "row = derive_plain parse r"
    by blast
  with NoSkills show ?thesis
    by (auto simp: derive_plain_def location_processing_def salary_cleaning_def)
next
  case (WithSkills rows)
  assume "row \<in> set (clean parse t)"
  with WithSkills have "row \<in> set (clean parse (WithSkills rows))" by simp
  from clean_WithSkills_mem[OF this] show ?thesis
  proof
    assume "\<exists>p\<in>set rows. row = derive_skills parse p"
    then obtain p where "p \<in> set rows" "row = derive_skills parse p" by blast
    with WithSkills show ?thesis
      by (auto simp: derive_skills_def location_processing_def company_processing_def
            skills_processing_def salary_cleaning_def)
  next
    assume "\<exists>p\<in>set rows. snd p = None \<and> row = derive_plain parse (fst p)"
    then obtain p where "p \<in> set rows" "row = derive_plain parse (fst p)" by blast
    with WithSkills show ?thesis
      by (auto simp: derive_plain_def location_processing_def salary_cleaning_def)
  qed
qed

text \<open>
  C2, amended: the seniority of every cleaned row is extracted from its job title, and it
  is missing or the text of the leftmost standalone occurrence in the title of one of the
  five keywords in any letter case, spelt as the title spells it.  So it equals one of
  Senior, Junior, Intern, Lead, Manager up to letter case; it is missing exactly when the
  title has no such occurrence or is itself missing.
\<close>

theorem seniority_matched_text:
  "(\<forall>row \<in> set (clean parse t).
        Seniority row = Option.bind (Job_Title row) extract_seniority
        \<and> (\<exists>r \<in> set (raw_rows t). Job_Title row = Job_Title_text r))
   \<and> (extract_seniority title = Some g \<longrightarrow>
        map ascii_lower g \<in> {''senior'', ''junior'', ''intern'', ''lead'', ''manager''}
        \<and> (\<exists>pre post. title = pre @ g @ post \<and> occurrence None pre g post
              \<and> (\<forall>pre' g' post'. title = pre' @ g' @ post' \<and> occurrence None pre' g' post'
                    \<longrightarrow> length pre \<le> length pre')))
   \<and> (extract_seniority title = None \<longleftrightarrow>
        \<not> (\<exists>pre g post. title = pre @ g @ post \<and> occurrence None pre g post))
   \<and> extract_seniority ''Senior Backend Engineer'' = Some ''Senior''
   \<and> extract_seniority ''Backend Engineer'' = None
   \<and> extract_seniority ''senior developer'' = Some ''senior''"
proof -
  have 1: "\<forall>row \<in> set (clean parse t).
        Seniority row = Option.bind (Job_Title row) extract_seniority
        \<and> (\<exists>r \<in> set (raw_rows t). Job_Title row = Job_Title_text r)"
    using clean_seniority by blast
  have 2: "extract_seniority title = Some g \<longrightarrow>
        map ascii_lower g \<in> {''senior'', ''junior'', ''intern'', ''lead'', ''manager''}
        \<and> (\<exists>pre post. title = pre @ g @ post \<and> occurrence None pre g post
              \<and> (\<forall>pre' g' post'. title = pre' @ g' @ post' \<and> occurrence None pre' g' post'
                    \<longrightarrow> length pre \<le> length pre'))"
  proof
    assume "extract_seniority title = Some g"
    then have "search_seniority None title = Some g" by (simp add: extract_seniority_def)
    from search_seniority_Some[OF this] obtain pre post where
      a: "title = pre @ g @ post" and o: "occurrence None pre g post"
      and l: "\<forall>pre' g' post'. title = pre' @ g' @ post' \<and> occurrence None pre' g' post'
                    \<longrightarrow> length pre \<le> length pre'" by blast
    from o have "map ascii_lower g \<in> set (map (map ascii_lower) seniority_keywords)"
      by (simp add: occurrence_def)
    then have "map ascii_lower g \<in> {''senior'', ''junior'', ''intern'', ''lead'', ''manager''}"
      by (simp only: lowered_keywords)
    with a o l show "map ascii_lower g \<in> {''senior'', ''junior'', ''intern'', ''lead'', ''manager''}
        \<and> (\<exists>pre post. title = pre @ g @ post \<and> occurrence None pre g post
              \<and> (\<forall>pre' g' post'. title = pre' @ g' @ post' \<and> occurrence None pre' g' post'
                    \<longrightarrow> length pre \<le> length pre'))" by blast
  qed
  have 3: "extract_seniority title = None \<longleftrightarrow>
        \<not> (\<exists>pre g post. title = pre @ g @ post \<and> occurrence None pre g post)"
  proof
    assume "extract_seniority title = None"
    then have "search_seniority None title = None" by (simp add: extract_seniority_def)
    with search_seniority_None show "\<not> (\<exists>pre g post. title = pre @ g @ post \<and> occurrence None pre g post)"
      by blast
  next
    assume n: "\<not> (\<exists>pre g post. title = pre @ g @ post \<and> occurrence None pre g post)"
    show "extract_seniority title = None"
    proof (cases "search_seniority None title")
      case None then show ?thesis by (simp add: extract_seniority_def)
    next
      case (Some g)
      from search_seniority_Some[OF Some] n show ?thesis by blast
    qed
  qed
  have 4: "extract_seniority ''Senior Backend Engineer'' = Some ''Senior''"
    by (simp add: extract_seniority_def seniority_keywords_def match_keyword_def
          word_boundary_def is_word_def ascii_lower_def)
  have 5: "extract_seniority ''Backend Engineer'' = None"
    by (simp add: extract_seniority_def seniority_keywords_def match_keyword_def
          word_boundary_def is_word_def ascii_lower_def)
  have 6: "extract_seniority ''senior developer'' = Some ''senior''"
    by (simp add: extract_seniority_def seniority_keywords_def match_keyword_def
          word_boundary_def is_word_def ascii_lower_def)
  from 1 2 3 4 5 6 show ?thesis by blast
qed

text \<open>
  C2, as stated: the seniority is missing or exactly one of the five strings.  It fails
  on the title \<open>senior developer\<close>, whose seniority is \<open>senior\<close>.
\<close>

theorem seniority_five_strings_counterexample:
  "map Seniority (clean to_numeric (NoSkills
       [posting ''900'' ''Cairo, Egypt'' ''senior developer'' ''u1''])) = [Some ''senior'']
   \<and> ''senior'' \<notin> {''Senior'', ''Junior'', ''Intern'', ''Lead'', ''Manager''}"
  by (simp add: clean_plain_def clean_skills_def drop_duplicates_def posting_def salary_cleaning_def location_processing_def
        extract_seniority_def seniority_keywords_def match_keyword_def
        word_boundary_def is_word_def ascii_lower_def)

theorem seniority_matched_text_witness:
  "map Seniority (clean to_numeric (NoSkills
       [posting ''900'' ''Cairo, Egypt'' ''senior developer'' ''u1'',
        posting ''950'' ''Remote'' ''Backend Engineer'' ''u2''])) = [Some ''senior'', None]
   \<and> extract_seniority ''senior developer'' = Some ''senior''
   \<and> map ascii_lower ''senior'' \<in> {''senior'', ''junior'', ''intern'', ''lead'', ''manager''}
   \<and> occurrence None [] ''senior'' '' developer''
   \<and> extract_seniority ''Backend Engineer'' = None"
proof -
  let ?t = "NoSkills [posting ''900'' ''Cairo, Egypt'' ''senior developer'' ''u1'',
        posting ''950'' ''Remote'' ''Backend Engineer'' ''u2'']"
  note T = seniority_matched_text[of to_numeric ?t "''senior developer''" "''senior''"]
  from T have s: "extract_seniority ''senior developer'' = Some ''senior''"
    and n: "extract_seniority ''Backend Engineer'' = None" by blast+
  from T s have m: "map ascii_lower ''senior'' \<in> {''senior'', ''junior'', ''intern'', ''lead'', ''manager''}"
    by blast
  have o: "occurrence None [] ''senior'' '' developer''"
    by (simp add: occurrence_def seniority_keywords_def word_boundary_def is_word_def
          ascii_lower_def)
  have j: "map Job_Title (clean to_numeric ?t) = [Some ''senior developer'', Some ''Backend Engineer'']"
    by (simp add: clean_plain_def clean_skills_def drop_duplicates_def posting_def salary_cleaning_def location_processing_def)
  from T have "\<forall>row \<in> set (clean to_numeric ?t).
        Seniority row = Option.bind (Job_Title row) extract_seniority" by blast
  then have "map Seniority (clean to_numeric ?t)
        = map (\<lambda>c. Option.bind c extract_seniority) (map Job_Title (clean to_numeric ?t))"
    by (simp del: clean.simps)
  with j s n have r: "map Seniority (clean to_numeric ?t) = [Some ''senior'', None]"
    by (simp del: clean.simps)
  from r s m o n show ?thesis by blast
qed

subsection \<open>The schema check\<close>

lemma columns_after_cleaning:
  "columns (strip_columns (dropna_columns df))
     = {strip n | n cs. (n, cs) \<in> set df \<and> (\<exists>c \<in> set cs. c \<noteq> None)}"
  by (force simp: columns_def strip_columns_def dropna_columns_def)

text \<open>
  C7.  Loading stops with the schema error exactly when the required columns are not all
  among the stripped names of the columns that have a value in some row, and the error
  then names exactly the required columns that are not among them; otherwise loading
  yields the table with those columns.  A required column whose cells are all missing is
  dropped first and so reported: with a link column without any value the error names
  \<open>Link\<close>.
\<close>

theorem schema_error_missing_columns:
  "(ingest df = Inl (SchemaError m) \<longleftrightarrow>
      \<not> required_columns \<subseteq> {strip n | n cs. (n, cs) \<in> set df \<and> (\<exists>c \<in> set cs. c \<noteq> None)}
      \<and> m = required_columns - {strip n | n cs. (n, cs) \<in> set df \<and> (\<exists>c \<in> set cs. c \<noteq> None)})
   \<and> (ingest df = Inr f \<longleftrightarrow>
      required_columns \<subseteq> {strip n | n cs. (n, cs) \<in> set df \<and> (\<exists>c \<in> set cs. c \<noteq> None)}
      \<and> f = strip_columns (dropna_columns df))
   \<and> ingest (upload [None, None]) = Inl (SchemaError {''Link''})"
proof -
  let ?A = "{strip n | n cs. (n, cs) \<in> set df \<and> (\<exists>c \<in> set cs. c \<noteq> None)}"
  have c: "columns (strip_columns (dropna_columns df)) = ?A" by (rule columns_after_cleaning)
  have 1: "ingest df = Inl (SchemaError m) \<longleftrightarrow>
      \<not> required_columns \<subseteq> ?A \<and> m = required_columns - ?A"
    unfolding ingest_def check_required_def c by auto
  have 2: "ingest df = Inr f \<longleftrightarrow> required_columns \<subseteq> ?A \<and> f = strip_columns (dropna_columns df)"
    unfolding ingest_def check_required_def c by auto
  have 3: "ingest (upload [None, None]) = Inl (SchemaError {''Link''})"
    by (simp add: ingest_def check_required_def columns_def strip_columns_def dropna_columns_def
          upload_def required_columns_def strip_def is_space_def)
  from 1 2 3 show ?thesis by blast
qed

theorem schema_error_missing_columns_witness:
  "ingest (upload [None, None]) = Inl (SchemaError {''Link''})
   \<and> ingest (upload [Some ''u1'', Some ''u2'']) = Inr (strip_columns (dropna_columns (upload [Some ''u1'', Some ''u2''])))
   \<and> map fst (strip_columns (dropna_columns (upload [Some ''u1'', Some ''u2''])))
       = [''Salary (USD)'', ''Location'', ''Job Title'', ''Company Name'', ''Link'']
   \<and> map fst (strip_columns (dropna_columns (upload [None, None])))
       = [''Salary (USD)'', ''Location'', ''Job Title'', ''Company Name'']
   \<and> required_columns - {''Salary (USD)'', ''Location'', ''Job Title'', ''Company Name''} = {''Link''}"
proof -
  have a: "map fst (strip_columns (dropna_columns (upload [Some ''u1'', Some ''u2''])))
       = [''Salary (USD)'', ''Location'', ''Job Title'', ''Company Name'', ''Link'']"
    by (simp add: strip_columns_def dropna_columns_def upload_def strip_def is_space_def)
  have b: "map fst (strip_columns (dropna_columns (upload [None, None])))
       = [''Salary (USD)'', ''Location'', ''Job Title'', ''Company Name'']"
    by (simp add: strip_columns_def dropna_columns_def upload_def strip_def is_space_def)
  have d: "required_columns - {''Salary (USD)'', ''Location'', ''Job Title'', ''Company Name''} = {''Link''}"
    by (simp add: required_columns_def)
  from a have s: "required_columns \<subseteq> columns (strip_columns (dropna_columns (upload [Some ''u1'', Some ''u2''])))"
    by (simp add: columns_def required_columns_def)
  note T = schema_error_missing_columns[of "upload [Some ''u1'', Some ''u2'']" _
              "strip_columns (dropna_columns (upload [Some ''u1'', Some ''u2'']))"]
  from s T have e: "ingest (upload [Some ''u1'', Some ''u2''])
          = Inr (strip_columns (dropna_columns (upload [Some ''u1'', Some ''u2''])))"
    unfolding columns_after_cleaning by blast
  from T have f: "ingest (upload [None, None]) = Inl (SchemaError {''Link''})" by blast
  from a b d e f show ?thesis by blast
qed

subsection \<open>The job level\<close>

text \<open>
  C8.  The job level of an experience value \<open>x\<close> is Junior below 2, Mid-Level from 2 up
  to but excluding 5, and Senior from 5 on; a missing experience value, be it Python's
  None or not-a-number, has no job level.  So 1.5 is Junior, 4.9 is Mid-Level and 5.0 is
  Senior.
\<close>

theorem determine_job_level_bands:
  "determine_job_level (Some (Num x)) =
     Some (if x < 2 then ''Junior'' else if x < 5 then ''Mid-Level'' else ''Senior'')
   \<and> determine_job_level None = None
   \<and> determine_job_level (Some NaN) = None
   \<and> determine_job_level (Some (Num 1.5)) = Some ''Junior''
   \<and> determine_job_level (Some (Num 4.9)) = Some ''Mid-Level''
   \<and> determine_job_level (Some (Num 5.0)) = Some ''Senior''"
  by (simp add: determine_job_level_def)

end

